theory Spec2Isabelle
  imports Complex_Main "HOL-Library.Mapping" "HOL-Library.AList_Mapping"
begin

section \<open>Values, exceptions and the collaborators of the bridge\<close>

text \<open>
  The bridge (\<^verbatim>\<open>src/python/bridge.py\<close>) reads one JSON request, runs one action and prints
  one JSON envelope.  Its data is dynamically typed, so the model has one type of Python
  values: what \<^verbatim>\<open>json.loads\<close> produces, and \<open>PyObj\<close> for an instance of an external
  class built from keyword arguments (the configuration objects handed to the crawling
  engine).  A dict is the association list of its items, in insertion order, read with
  \<open>map_of\<close>.  A string is the list of its code points, each below 256; text beyond
  Latin-1 is outside the model.

  A float is kept as the number it denotes, with the four values that are not finite
  non-zero numbers apart (\<^verbatim>\<open>json.loads\<close> accepts \<^verbatim>\<open>NaN\<close> and \<^verbatim>\<open>Infinity\<close>).  Testing and
  comparing a float are exact; its rounding product and its printing are the
  interpreter's, and are taken from the environment.
\<close>

datatype pyfloat = Finite rat | NegZero | PosInf | NegInf | NaN

datatype pyval =
    PyNone
  | PyBool bool
  | PyInt int
  | PyFloat pyfloat
  | PyStr string
  | PyList "pyval list"
  | PyDict "(string \<times> pyval) list"
  | PyObj string "(string \<times> pyval) list"

text \<open>
  Every \<^verbatim>\<open>raise\<close> is a value.  The constructors are the exception classes the code
  tells apart (\<^verbatim>\<open>json.JSONDecodeError\<close> against every other \<^verbatim>\<open>Exception\<close>) and the ones
  the interpreter raises on a missing key, a missing attribute or an operand of the wrong
  type; \<open>Exception\<close> stands for any other subclass and carries its \<^verbatim>\<open>str()\<close>.
\<close>

datatype exn =
    JSONDecodeError string nat nat nat
  | KeyError string
  | AttributeError string
  | TypeError string
  | Exception string

fun dec :: "nat \<Rightarrow> string" where
  "dec n = (if n < 10 then [char_of (48 + n)]
            else dec (n div 10) @ [char_of (48 + n mod 10)])"

declare dec.simps [simp del]

definition dec_int :: "int \<Rightarrow> string" where
  "dec_int i = (if i < 0 then CHR ''-'' # dec (nat (- i)) else dec (nat i))"

text \<open>\<^verbatim>\<open>str(e)\<close>: a decode error prints its position, a \<^verbatim>\<open>KeyError\<close> the \<^verbatim>\<open>repr\<close> of the
  key (the keys looked up here are plain identifiers).\<close>

fun str_exn :: "exn \<Rightarrow> string" where
  "str_exn (JSONDecodeError msg lineno colno pos) =
     msg @ '': line '' @ dec lineno @ '' column '' @ dec colno @ '' (char '' @ dec pos @ '')''"
| "str_exn (KeyError k) = [CHR 0x27] @ k @ [CHR 0x27]"
| "str_exn (AttributeError msg) = msg"
| "str_exn (TypeError msg) = msg"
| "str_exn (Exception msg) = msg"

fun type_name :: "pyval \<Rightarrow> string" where
  "type_name PyNone = ''NoneType''"
| "type_name (PyBool b) = ''bool''"
| "type_name (PyInt i) = ''int''"
| "type_name (PyFloat f) = ''float''"
| "type_name (PyStr s) = ''str''"
| "type_name (PyList xs) = ''list''"
| "type_name (PyDict d) = ''dict''"
| "type_name (PyObj c kw) = c"

definition quoted :: "string \<Rightarrow> string" where
  "quoted s = [CHR 0x27] @ s @ [CHR 0x27]"

definition no_attribute :: "pyval \<Rightarrow> string \<Rightarrow> exn" where
  "no_attribute v a =
     AttributeError (quoted (type_name v) @ '' object has no attribute '' @ quoted a)"

definition not_subscriptable :: "pyval \<Rightarrow> exn" where
  "not_subscriptable v = TypeError (quoted (type_name v) @ '' object is not subscriptable'')"

text \<open>Truth value testing (\<^verbatim>\<open>if x:\<close>, \<^verbatim>\<open>x or y\<close>).\<close>

fun truthy :: "pyval \<Rightarrow> bool" where
  "truthy PyNone = False"
| "truthy (PyBool b) = b"
| "truthy (PyInt i) = (i \<noteq> 0)"
| "truthy (PyFloat f) = (f \<noteq> Finite 0 \<and> f \<noteq> NegZero)"
| "truthy (PyStr s) = (s \<noteq> [])"
| "truthy (PyList xs) = (xs \<noteq> [])"
| "truthy (PyDict d) = (d \<noteq> [])"
| "truthy (PyObj c kw) = True"

definition dict_get :: "(string \<times> pyval) list \<Rightarrow> string \<Rightarrow> pyval \<Rightarrow> pyval" where
  "dict_get d k dflt = (case map_of d k of Some v \<Rightarrow> v | None \<Rightarrow> dflt)"

text \<open>\<^verbatim>\<open>v.get(k, dflt)\<close> on a value that may not be a dict.\<close>

definition py_get :: "pyval \<Rightarrow> string \<Rightarrow> pyval \<Rightarrow> exn + pyval" where
  "py_get v k dflt =
     (case v of PyDict d \<Rightarrow> Inr (dict_get d k dflt) | _ \<Rightarrow> Inl (no_attribute v ''get''))"

text \<open>\<^verbatim>\<open>v[k]\<close> with a string key.\<close>

definition py_item :: "pyval \<Rightarrow> string \<Rightarrow> exn + pyval" where
  "py_item v k =
     (case v of
        PyDict d \<Rightarrow> (case map_of d k of Some x \<Rightarrow> Inr x | None \<Rightarrow> Inl (KeyError k))
      | PyList xs \<Rightarrow> Inl (TypeError ''list indices must be integers or slices, not str'')
      | PyStr s \<Rightarrow> Inl (TypeError (''string indices must be integers, not '' @ quoted ''str''))
      | _ \<Rightarrow> Inl (not_subscriptable v))"

text \<open>
  \<^verbatim>\<open>xs[:limit]\<close> on a list: \<^verbatim>\<open>None\<close> keeps everything, a negative bound counts from the
  end, a bool is the integer 0 or 1, anything else is a \<^verbatim>\<open>TypeError\<close>.
\<close>

definition slice_upto :: "'a list \<Rightarrow> pyval \<Rightarrow> exn + 'a list" where
  "slice_upto xs limit =
     (case limit of
        PyNone \<Rightarrow> Inr xs
      | PyInt n \<Rightarrow> Inr (if 0 \<le> n then take (nat n) xs else take (length xs - nat (- n)) xs)
      | PyBool b \<Rightarrow> Inr (take (if b then 1 else 0) xs)
      | _ \<Rightarrow> Inl (TypeError ''slice indices must be integers or None or have an __index__ method''))"

text \<open>
  \<^verbatim>\<open>for item in v[:limit]\<close> on a value that may not be a list: the items the loop sees.
  Slicing a dict raises too; the class and text of that exception depend on the version of
  the interpreter, and the code only logs it.
\<close>

definition sliced_items :: "pyval \<Rightarrow> pyval \<Rightarrow> exn + pyval list" where
  "sliced_items v limit =
     (case v of
        PyList xs \<Rightarrow> slice_upto xs limit
      | PyStr s \<Rightarrow> (case slice_upto s limit of
                      Inl e \<Rightarrow> Inl e
                    | Inr t \<Rightarrow> Inr (map (\<lambda>c. PyStr [c]) t))
      | PyDict d \<Rightarrow> Inl (TypeError (''unhashable type: '' @ quoted ''slice''))
      | _ \<Rightarrow> Inl (not_subscriptable v))"

definition rstrip_slash :: "string \<Rightarrow> string" where
  "rstrip_slash s = rev (dropWhile (\<lambda>c. c = CHR ''/'') (rev s))"

fun contains :: "string \<Rightarrow> string \<Rightarrow> bool" where
  "contains needle [] = (needle = [])"
| "contains needle (c # cs) =
     (take (length needle) (c # cs) = needle \<or> contains needle cs)"

subsection \<open>The crawling engine's result\<close>

text \<open>
  The engine is an external collaborator; its result object is modelled at the interface
  the bridge reads.  \<^verbatim>\<open>result.markdown\<close> is either an object with a raw conversion
  (\<^verbatim>\<open>raw_markdown\<close>) and a cleaned, filtered one (\<^verbatim>\<open>fit_markdown\<close>), or a value without
  the attribute \<^verbatim>\<open>raw_markdown\<close>, of which only \<^verbatim>\<open>str()\<close> is used.
  \<open>res_raw_html\<close> and \<open>res_links\<close> are \<open>None\<close> when the result object has no attribute
  \<^verbatim>\<open>raw_html\<close> or \<^verbatim>\<open>links\<close>.
  A link is a bare URL or a dict of string fields; two such dicts are equal when they
  hold the same fields, which is the equality of \<open>mapping\<close>.
\<close>

datatype markdown_value =
    MarkdownResult (raw_markdown: string) (fit_markdown: string)
  | MarkdownText string

datatype link = Bare string | Anchor "(string, string) mapping"

record crawl_result =
  res_success :: bool
  res_error_message :: "string option"
  res_html :: string
  res_raw_html :: "string option"
  res_markdown :: markdown_value
  res_extracted_content :: "string option"
  res_screenshot :: "string option"
  res_url :: string
  res_links :: "(string \<times> link list) list option"

text \<open>
  What \<^verbatim>\<open>getattr(crawl4ai, "__version__", ..)\<close> may find: an object that has a
  \<^verbatim>\<open>__version__\<close> of its own, one that has not (its \<^verbatim>\<open>str()\<close> is kept), or one whose
  inspection raises.
\<close>

datatype version_obj = WithVersion string | Plain string | Broken

record http_response =
  status_code :: int
  json_body :: "exn + pyval"

text \<open>
  Every call to a collaborator and every line on standard error is recorded, in order.
\<close>

datatype event =
    HttpGet int string pyval
  | DdgsText pyval pyval
  | EngineRun pyval pyval pyval
  | Stderr string

text \<open>
  The environment of one process: the module constant \<^verbatim>\<open>SEARXNG_URL\<close>, the library
  functions and the collaborators.  \<open>httpx_get timeout url params\<close> is the GET of the
  first search tier (\<open>Inl\<close>: the import, the client or the request raised);
  \<open>ddgs_text query max_results\<close> is the second tier (\<open>Inl\<close>: the import, the constructor
  or the call raised); \<open>arun\<close> and \<open>arun_stream\<close> are \<^verbatim>\<open>crawler.arun\<close> inside its
  \<^verbatim>\<open>async with\<close>, without and with \<^verbatim>\<open>stream=True\<close>; an \<open>Inl\<close> inside a stream is the
  iterator raising at that point.  \<open>url_pattern_filter\<close> is the constructor
  \<^verbatim>\<open>URLPatternFilter(patterns=[url_pattern])\<close>, which may reject its argument.
  \<open>float_repr\<close> and \<open>float_times\<close> are the printing of a float and its product with an
  integer; \<open>object_repr\<close> is the \<^verbatim>\<open>repr\<close> of an object of an external class.
  \<open>version_module\<close> is what \<^verbatim>\<open>from crawl4ai.__version__ import __version__\<close> binds
  (\<open>None\<close>: it raises).
\<close>

record env =
  SEARXNG_URL :: string
  json_loads :: "string \<Rightarrow> exn + pyval"
  float_repr :: "pyfloat \<Rightarrow> string"
  float_times :: "pyfloat \<Rightarrow> nat \<Rightarrow> pyfloat"
  object_repr :: "pyval \<Rightarrow> string"
  httpx_get :: "int \<Rightarrow> string \<Rightarrow> pyval \<Rightarrow> exn + http_response"
  ddgs_text :: "pyval \<Rightarrow> pyval \<Rightarrow> exn + pyval list"
  arun :: "pyval \<Rightarrow> pyval \<Rightarrow> pyval \<Rightarrow> exn + crawl_result"
  arun_stream :: "pyval \<Rightarrow> pyval \<Rightarrow> pyval \<Rightarrow> exn + (exn + crawl_result) list"
  url_pattern_filter :: "pyval \<Rightarrow> exn + pyval"
  version_module :: "string option"
  version_attr :: "version_obj option"
  sys_version :: string

definition log_error :: "string \<Rightarrow> event" where
  "log_error msg = Stderr (''[bridge error] '' @ msg)"

section \<open>search_action\<close>

text \<open>
  The two loops that append \<^verbatim>\<open>{"url": .., "title": .., "snippet": ..}\<close> to the shared list
  \<^verbatim>\<open>results\<close>.  \<^verbatim>\<open>item.get\<close> raises on an item that is not a dict; what was appended
  before stays in the list.
\<close>

definition search_result :: "string \<Rightarrow> string \<Rightarrow> (string \<times> pyval) list \<Rightarrow> pyval" where
  "search_result url_key snippet_key d =
     PyDict [(''url'', dict_get d url_key (PyStr [])),
             (''title'', dict_get d ''title'' (PyStr [])),
             (''snippet'', dict_get d snippet_key (PyStr []))]"

fun append_results ::
  "string \<Rightarrow> string \<Rightarrow> pyval list \<Rightarrow> pyval list \<Rightarrow> pyval list \<times> exn option" where
  "append_results url_key snippet_key results [] = (results, None)"
| "append_results url_key snippet_key results (item # rest) =
     (case item of
        PyDict d \<Rightarrow>
          append_results url_key snippet_key
            (results @ [search_result url_key snippet_key d]) rest
      | _ \<Rightarrow> (results, Some (no_attribute item ''get'')))"

datatype tier1 = Returned "pyval list" | FellThrough "pyval list"

text \<open>The \<^verbatim>\<open>try\<close> block of the first tier, entered when \<^verbatim>\<open>SEARXNG_URL\<close> is not empty.\<close>

definition searxng_target :: "env \<Rightarrow> string" where
  "searxng_target env = rstrip_slash (SEARXNG_URL env) @ ''/search''"

definition searxng_params :: "pyval \<Rightarrow> pyval" where
  "searxng_params query = PyDict [(''q'', query), (''format'', PyStr ''json'')]"

definition searxng_failed :: "env \<Rightarrow> pyval \<Rightarrow> exn \<Rightarrow> event list" where
  "searxng_failed env query e =
     [HttpGet 10 (searxng_target env) (searxng_params query),
      log_error (''SearXNG search failed: '' @ str_exn e)]"

definition searxng_tier :: "env \<Rightarrow> pyval \<Rightarrow> pyval \<Rightarrow> tier1 \<times> event list" where
  "searxng_tier env query limit =
     (case httpx_get env 10 (searxng_target env) (searxng_params query) of
        Inl e \<Rightarrow> (FellThrough [], searxng_failed env query e)
      | Inr response \<Rightarrow>
          if status_code response = 200 then
            (case json_body response of
               Inl e \<Rightarrow> (FellThrough [], searxng_failed env query e)
             | Inr data \<Rightarrow>
                (case py_get data ''results'' (PyList []) of
                   Inl e \<Rightarrow> (FellThrough [], searxng_failed env query e)
                 | Inr found \<Rightarrow>
                    (case sliced_items found limit of
                       Inl e \<Rightarrow> (FellThrough [], searxng_failed env query e)
                     | Inr items \<Rightarrow>
                        (case append_results ''url'' ''content'' [] items of
                           (results, Some e) \<Rightarrow>
                             (FellThrough results, searxng_failed env query e)
                         | (results, None) \<Rightarrow>
                             (if results \<noteq> [] then Returned results
                              else FellThrough results,
                              [HttpGet 10 (searxng_target env) (searxng_params query)])))))
          else (FellThrough [], [HttpGet 10 (searxng_target env) (searxng_params query)]))"

definition all_failed :: string where
  "all_failed =
     ''All search backends failed. Configure SEARXNG_URL or ensure ddgs is available.''"

text \<open>The second tier and the final \<^verbatim>\<open>raise\<close>.\<close>

definition ddg_failed :: "pyval \<Rightarrow> pyval \<Rightarrow> exn \<Rightarrow> (exn + pyval list) \<times> event list" where
  "ddg_failed query limit e =
     (Inl (Exception all_failed),
      [DdgsText query limit, log_error (''DDG search failed: '' @ str_exn e)])"

definition ddg_tier ::
  "env \<Rightarrow> pyval \<Rightarrow> pyval \<Rightarrow> pyval list \<Rightarrow> (exn + pyval list) \<times> event list" where
  "ddg_tier env query limit results =
     (case ddgs_text env query limit of
        Inl e \<Rightarrow> ddg_failed query limit e
      | Inr items \<Rightarrow>
          (case append_results ''href'' ''body'' results items of
             (results', Some e) \<Rightarrow> ddg_failed query limit e
           | (results', None) \<Rightarrow> (Inr results', [DdgsText query limit])))"

definition search_action ::
  "env \<Rightarrow> pyval \<Rightarrow> pyval \<Rightarrow> (exn + pyval list) \<times> event list" where
  "search_action env query limit =
     (if SEARXNG_URL env \<noteq> [] then
        (case searxng_tier env query limit of
           (Returned results, evs) \<Rightarrow> (Inr results, evs)
         | (FellThrough results, evs) \<Rightarrow>
             (case ddg_tier env query limit results of
                (out, evs') \<Rightarrow> (out, evs @ evs')))
      else ddg_tier env query limit [])"


section \<open>The handlers that drive the crawling engine\<close>

definition stealth_browser :: pyval where
  "stealth_browser =
     PyObj ''BrowserConfig''
       [(''headless'', PyBool True), (''verbose'', PyBool False),
        (''browser_type'', PyStr ''chromium''), (''enable_stealth'', PyBool True),
        (''extra_args'', PyList [PyStr ''--disable-blink-features=AutomationControlled''])]"

definition cache_bypass :: pyval where
  "cache_bypass = PyObj ''CacheMode.BYPASS'' []"

text \<open>\<^verbatim>\<open>timeout * 1000\<close>: a number is multiplied, a string or a list is repeated.\<close>

definition py_times :: "env \<Rightarrow> pyval \<Rightarrow> nat \<Rightarrow> exn + pyval" where
  "py_times env v k =
     (case v of
        PyInt n \<Rightarrow> Inr (PyInt (n * int k))
      | PyBool b \<Rightarrow> Inr (PyInt (if b then int k else 0))
      | PyFloat f \<Rightarrow> Inr (PyFloat (float_times env f k))
      | PyStr s \<Rightarrow> Inr (PyStr (concat (replicate k s)))
      | PyList xs \<Rightarrow> Inr (PyList (concat (replicate k xs)))
      | _ \<Rightarrow> Inl (TypeError (''unsupported operand type(s) for *: '' @ quoted (type_name v)
                               @ '' and '' @ quoted ''int'')))"

text \<open>\<^verbatim>\<open>result.error_message or dflt\<close>.\<close>

definition message_or :: "string option \<Rightarrow> string \<Rightarrow> string" where
  "message_or m dflt = (case m of Some s \<Rightarrow> (if s \<noteq> [] then s else dflt) | None \<Rightarrow> dflt)"

definition fetch_action ::
  "env \<Rightarrow> pyval \<Rightarrow> pyval \<Rightarrow> pyval \<Rightarrow> pyval \<Rightarrow> pyval \<Rightarrow> (exn + pyval) \<times> event list" where
  "fetch_action env url format wait_for js_code timeout =
     (case py_times env timeout 1000 of
        Inl e \<Rightarrow> (Inl e, [])
      | Inr page_timeout \<Rightarrow>
         (let run_config =
                PyObj ''CrawlerRunConfig''
                  [(''cache_mode'', cache_bypass), (''wait_for'', wait_for),
                   (''js_code'', if truthy js_code then PyList [js_code] else PyNone),
                   (''page_timeout'', page_timeout), (''verbose'', PyBool False)]
          in (case arun env stealth_browser run_config url of
                Inl e \<Rightarrow> Inl e
              | Inr result \<Rightarrow>
                  if \<not> res_success result then
                    Inl (Exception (message_or (res_error_message result) ''Failed to fetch URL''))
                  else if format = PyStr ''html'' then Inr (PyStr (res_html result))
                  else if format = PyStr ''raw'' then
                    (case res_raw_html result of
                       Some raw_html \<Rightarrow> Inr (PyStr raw_html)
                     | None \<Rightarrow> Inl (AttributeError (quoted ''CrawlResult''
                                 @ '' object has no attribute '' @ quoted ''raw_html'')))
                  else (case res_markdown result of
                          MarkdownResult raw fit \<Rightarrow> Inr (PyStr raw)
                        | MarkdownText s \<Rightarrow> Inr (PyStr s)),
              [EngineRun stealth_browser run_config url])))"

definition extract_action ::
  "env \<Rightarrow> pyval \<Rightarrow> pyval \<Rightarrow> (exn + pyval) \<times> event list" where
  "extract_action env url schema =
     (case schema of
        PyDict d \<Rightarrow>
         (let fields = map (\<lambda>(name, selector).
                              PyDict [(''name'', PyStr name), (''selector'', selector),
                                      (''type'', PyStr ''text'')]) d;
              extraction_schema =
                PyDict [(''name'', PyStr ''extraction''), (''baseSelector'', PyStr ''html''),
                        (''fields'', PyList fields)];
              extraction_strategy =
                PyObj ''JsonCssExtractionStrategy'' [(''schema'', extraction_schema)];
              run_config =
                PyObj ''CrawlerRunConfig''
                  [(''cache_mode'', cache_bypass),
                   (''extraction_strategy'', extraction_strategy), (''verbose'', PyBool False)]
          in (case arun env stealth_browser run_config url of
                Inl e \<Rightarrow> Inl e
              | Inr result \<Rightarrow>
                  if \<not> res_success result then
                    Inl (Exception (message_or (res_error_message result) ''Failed to extract''))
                  else (case res_extracted_content result of
                          Some content \<Rightarrow>
                            (if content \<noteq> [] then json_loads env content else Inr (PyDict []))
                        | None \<Rightarrow> Inr (PyDict [])),
              [EngineRun stealth_browser run_config url]))
      | _ \<Rightarrow> (Inl (no_attribute schema ''items''), []))"

definition screenshot_action ::
  "env \<Rightarrow> pyval \<Rightarrow> pyval \<Rightarrow> pyval \<Rightarrow> (exn + pyval) \<times> event list" where
  "screenshot_action env url width height =
     (let browser_config =
            PyObj ''BrowserConfig''
              [(''headless'', PyBool True), (''verbose'', PyBool False),
               (''browser_type'', PyStr ''chromium''),
               (''viewport_width'', width), (''viewport_height'', height)];
          run_config =
            PyObj ''CrawlerRunConfig''
              [(''cache_mode'', cache_bypass), (''screenshot'', PyBool True),
               (''verbose'', PyBool False)]
      in (case arun env browser_config run_config url of
            Inl e \<Rightarrow> Inl e
          | Inr result \<Rightarrow>
              if \<not> res_success result then
                Inl (Exception (message_or (res_error_message result)
                                  ''Failed to take screenshot''))
              else (case res_screenshot result of
                      Some shot \<Rightarrow>
                        (if shot \<noteq> [] then Inr (PyStr (''data:image/png;base64,'' @ shot))
                         else Inl (Exception ''No screenshot captured''))
                    | None \<Rightarrow> Inl (Exception ''No screenshot captured'')),
          [EngineRun browser_config run_config url]))"

subsection \<open>crawl_action\<close>

text \<open>\<^verbatim>\<open>len(pages) >= max_pages\<close>, with whatever the request gave for \<^verbatim>\<open>max_pages\<close>.\<close>

definition len_ge :: "nat \<Rightarrow> pyval \<Rightarrow> exn + bool" where
  "len_ge n v =
     (case v of
        PyInt m \<Rightarrow> Inr (m \<le> int n)
      | PyBool b \<Rightarrow> Inr ((if b then 1 else 0) \<le> n)
      | PyFloat f \<Rightarrow>
          Inr (case f of
                 Finite r \<Rightarrow> r \<le> of_nat n
               | NegZero \<Rightarrow> True
               | PosInf \<Rightarrow> False
               | NegInf \<Rightarrow> True
               | NaN \<Rightarrow> False)
      | _ \<Rightarrow> Inl (TypeError (quoted ''>='' @ '' not supported between instances of ''
                               @ quoted ''int'' @ '' and '' @ quoted (type_name v))))"

text \<open>
  The \<^verbatim>\<open>async for\<close> over the streamed results.  The second component is the part of the
  stream that was never pulled.
\<close>

fun collect_pages ::
  "pyval \<Rightarrow> pyval list \<Rightarrow> (exn + crawl_result) list
     \<Rightarrow> (exn + pyval list) \<times> (exn + crawl_result) list" where
  "collect_pages max_pages pages [] = (Inr pages, [])"
| "collect_pages max_pages pages (Inl e # rest) = (Inl e, rest)"
| "collect_pages max_pages pages (Inr result # rest) =
     (if res_success result then
        (let markdown = (case res_markdown result of
                           MarkdownResult raw fit \<Rightarrow> raw
                         | MarkdownText s \<Rightarrow> s);
             pages' = pages @ [PyDict [(''url'', PyStr (res_url result)),
                                       (''markdown'', PyStr markdown)]]
         in (case len_ge (length pages') max_pages of
               Inl e \<Rightarrow> (Inl e, rest)
             | Inr stop \<Rightarrow>
                 if stop then (Inr pages', rest) else collect_pages max_pages pages' rest))
      else collect_pages max_pages pages rest)"

text \<open>
  The filter chain of the crawl, built first.  The constructor of the pattern filter is
  the engine's and may raise; then nothing else runs.
\<close>

definition filter_chain_for :: "env \<Rightarrow> pyval \<Rightarrow> exn + pyval" where
  "filter_chain_for env url_pattern =
     (if truthy url_pattern then
        (case url_pattern_filter env url_pattern of
           Inl e \<Rightarrow> Inl e
         | Inr pattern_filter \<Rightarrow>
             Inr (PyObj ''FilterChain'' [(''filters'', PyList [pattern_filter])]))
      else Inr PyNone)"

definition crawl_config :: "pyval \<Rightarrow> pyval \<Rightarrow> pyval \<Rightarrow> pyval \<Rightarrow> pyval" where
  "crawl_config max_pages max_depth strategy filter_chain =
     (let crawl_strategy =
            PyObj (if strategy = PyStr ''dfs'' then ''DFSDeepCrawlStrategy''
                   else ''BFSDeepCrawlStrategy'')
              [(''max_depth'', max_depth), (''max_pages'', max_pages),
               (''filter_chain'', filter_chain)]
      in PyObj ''CrawlerRunConfig''
           [(''cache_mode'', cache_bypass), (''deep_crawl_strategy'', crawl_strategy),
            (''stream'', PyBool True), (''verbose'', PyBool False)])"

definition crawl_action ::
  "env \<Rightarrow> pyval \<Rightarrow> pyval \<Rightarrow> pyval \<Rightarrow> pyval \<Rightarrow> pyval \<Rightarrow> (exn + pyval list) \<times> event list" where
  "crawl_action env url max_pages max_depth strategy url_pattern =
     (case filter_chain_for env url_pattern of
        Inl e \<Rightarrow> (Inl e, [])
      | Inr filter_chain \<Rightarrow>
         (let run_config = crawl_config max_pages max_depth strategy filter_chain
          in (case arun_stream env stealth_browser run_config url of
                Inl e \<Rightarrow> Inl e
              | Inr stream \<Rightarrow> fst (collect_pages max_pages [] stream),
              [EngineRun stealth_browser run_config url])))"

subsection \<open>map_action\<close>

text \<open>
  A collected entry \<^verbatim>\<open>{"url": .., "title": ..}\<close>.  Its \<^verbatim>\<open>url\<close> is the \<^verbatim>\<open>href\<close> of the
  link, the bare link, or, for a dict without \<^verbatim>\<open>href\<close>, the dict itself.
\<close>

datatype url_value = UrlStr string | UrlAnchor "(string, string) mapping"

datatype map_entry = MapEntry (entry_url: url_value) (entry_title: string)

definition link_entry :: "link \<Rightarrow> map_entry" where
  "link_entry lnk =
     (case lnk of
        Anchor d \<Rightarrow>
          MapEntry (case Mapping.lookup d ''href'' of
                      Some h \<Rightarrow> UrlStr h
                    | None \<Rightarrow> UrlAnchor d)
                   (case Mapping.lookup d ''text'' of Some t \<Rightarrow> t | None \<Rightarrow> [])
      | Bare s \<Rightarrow> MapEntry (UrlStr s) [])"

fun url_truthy :: "url_value \<Rightarrow> bool" where
  "url_truthy (UrlStr s) = (s \<noteq> [])"
| "url_truthy (UrlAnchor d) = (\<not> Mapping.is_empty d)"

text \<open>The inner loop: \<^verbatim>\<open>if entry["url"] and entry not in links: links.append(entry)\<close>.\<close>

fun add_links :: "map_entry list \<Rightarrow> link list \<Rightarrow> map_entry list" where
  "add_links links [] = links"
| "add_links links (lnk # rest) =
     (let entry = link_entry lnk
      in if url_truthy (entry_url entry) \<and> entry \<notin> set links
         then add_links (links @ [entry]) rest
         else add_links links rest)"

text \<open>The outer loop over the streamed results.\<close>

fun collect_links ::
  "map_entry list \<Rightarrow> (exn + crawl_result) list \<Rightarrow> exn + map_entry list" where
  "collect_links links [] = Inr links"
| "collect_links links (Inl e # rest) = Inl e"
| "collect_links links (Inr result # rest) =
     (case res_links result of
        Some d \<Rightarrow>
          if res_success result \<and> d \<noteq> [] then
            collect_links
              (add_links links
                 (case map_of d ''internal'' of Some found \<Rightarrow> found | None \<Rightarrow> []))
              rest
          else collect_links links rest
      | None \<Rightarrow> collect_links links rest)"

text \<open>\<^verbatim>\<open>str.lower()\<close> on code points below 256: the capital letters are \<^verbatim>\<open>A\<close> to
  \<^verbatim>\<open>Z\<close> and the code points 192 to 222 but 215, the multiplication sign.\<close>

definition lower :: "string \<Rightarrow> string" where
  "lower s = map (\<lambda>c. let n = (of_char c :: nat)
                       in if (65 \<le> n \<and> n \<le> 90) \<or> (192 \<le> n \<and> n \<le> 222 \<and> n \<noteq> 215)
                          then char_of (n + 32) else c) s"

text \<open>
  The list comprehension of the search filter.  \<^verbatim>\<open>lnk["url"].lower()\<close> raises on a
  \<^verbatim>\<open>url\<close> that is a dict.
\<close>

fun filter_links :: "string \<Rightarrow> map_entry list \<Rightarrow> exn + map_entry list" where
  "filter_links search_lower [] = Inr []"
| "filter_links search_lower (lnk # rest) =
     (case entry_url lnk of
        UrlAnchor d \<Rightarrow> Inl (AttributeError (quoted ''dict'' @ '' object has no attribute ''
                                              @ quoted ''lower''))
      | UrlStr u \<Rightarrow>
         (case filter_links search_lower rest of
            Inl e \<Rightarrow> Inl e
          | Inr kept \<Rightarrow>
              if contains search_lower (lower u)
                 \<or> contains search_lower (lower (entry_title lnk))
              then Inr (lnk # kept) else Inr kept))"

definition map_config :: "pyval \<Rightarrow> pyval" where
  "map_config limit =
     PyObj ''CrawlerRunConfig''
       [(''cache_mode'', cache_bypass), (''verbose'', PyBool False),
        (''deep_crawl_strategy'',
         PyObj ''BFSDeepCrawlStrategy'' [(''max_depth'', PyInt 1), (''max_pages'', limit)]),
        (''stream'', PyBool True)]"

definition plain_browser :: pyval where
  "plain_browser =
     PyObj ''BrowserConfig''
       [(''headless'', PyBool True), (''verbose'', PyBool False),
        (''browser_type'', PyStr ''chromium'')]"

definition map_action ::
  "env \<Rightarrow> pyval \<Rightarrow> pyval \<Rightarrow> pyval \<Rightarrow> (exn + map_entry list) \<times> event list" where
  "map_action env url search limit =
     (case arun_stream env plain_browser (map_config limit) url of
        Inl e \<Rightarrow> Inl e
      | Inr stream \<Rightarrow>
         (case collect_links [] stream of
            Inl e \<Rightarrow> Inl e
          | Inr links \<Rightarrow>
             (case (if truthy search \<and> links \<noteq> [] then
                      (case search of
                         PyStr s \<Rightarrow> filter_links (lower s) links
                       | _ \<Rightarrow> Inl (no_attribute search ''lower''))
                    else Inr links) of
                Inl e \<Rightarrow> Inl e
              | Inr links' \<Rightarrow> slice_upto links' limit)),
      [EngineRun plain_browser (map_config limit) url])"

section \<open>debug_action, the envelope and the dispatcher\<close>

definition debug_action :: "env \<Rightarrow> pyval" where
  "debug_action env =
     (let crawl4ai_version =
            (case version_module env of
               Some v \<Rightarrow> v
             | None \<Rightarrow>
                (case version_attr env of
                   None \<Rightarrow> ''unknown''
                 | Some (WithVersion v) \<Rightarrow> v
                 | Some (Plain v) \<Rightarrow> v
                 | Some Broken \<Rightarrow> ''unknown''))
      in PyDict [(''crawl4ai_version'', PyStr crawl4ai_version),
                 (''searxng_url'',
                  PyStr (if SEARXNG_URL env \<noteq> [] then SEARXNG_URL env
                         else ''not configured'')),
                 (''python_version'', PyStr (sys_version env))])"

text \<open>What a handler returns: JSON data, or the entries of \<open>map_action\<close>.\<close>

datatype payload = Json pyval | Entries "map_entry list"

text \<open>
  \<^verbatim>\<open>respond(success, data=None, error=None)\<close>: the dict that is printed.  \<^verbatim>\<open>data\<close> is
  stored unless it is \<^verbatim>\<open>None\<close>, \<^verbatim>\<open>error\<close> only if it is truthy.
\<close>

definition respond :: "bool \<Rightarrow> payload \<Rightarrow> string option \<Rightarrow> (string \<times> payload) list" where
  "respond success data error =
     [(''success'', Json (PyBool success))]
     @ (if data \<noteq> Json PyNone then [(''data'', data)] else [])
     @ (case error of
          Some msg \<Rightarrow> (if msg \<noteq> [] then [(''error'', Json (PyStr msg))] else [])
        | None \<Rightarrow> [])"

text \<open>
  \<^verbatim>\<open>repr(v)\<close>.  A string is quoted with \<^verbatim>\<open>'\<close>, or with \<^verbatim>\<open>"\<close> when it holds a \<^verbatim>\<open>'\<close> and
  no \<^verbatim>\<open>"\<close>; the quote and the backslash are escaped, tab, newline and carriage return
  are written \<^verbatim>\<open>\t\<close>, \<^verbatim>\<open>\n\<close>, \<^verbatim>\<open>\r\<close>, and any other code point that is not printable is
  written \<^verbatim>\<open>\xhh\<close>.
\<close>

fun join :: "string \<Rightarrow> string list \<Rightarrow> string" where
  "join sep [] = []"
| "join sep [x] = x"
| "join sep (x # y # rest) = x @ sep @ join sep (y # rest)"

definition hex_digit :: "nat \<Rightarrow> char" where
  "hex_digit n = ''0123456789abcdef'' ! n"

definition printable :: "char \<Rightarrow> bool" where
  "printable c = (let n = (of_char c :: nat)
                  in (32 \<le> n \<and> n < 127) \<or> (161 \<le> n \<and> n \<noteq> 173))"

definition repr_char :: "char \<Rightarrow> char \<Rightarrow> string" where
  "repr_char quote c =
     (if c = quote \<or> c = CHR 0x5C then [CHR 0x5C, c]
      else if c = CHR 0x09 then [CHR 0x5C, CHR ''t'']
      else if c = CHR 0x0A then [CHR 0x5C, CHR ''n'']
      else if c = CHR 0x0D then [CHR 0x5C, CHR ''r'']
      else if printable c then [c]
      else [CHR 0x5C, CHR ''x'', hex_digit ((of_char c :: nat) div 16),
            hex_digit ((of_char c :: nat) mod 16)])"

definition repr_str :: "string \<Rightarrow> string" where
  "repr_str s =
     (let quote = (if CHR 0x27 \<in> set s \<and> CHR 0x22 \<notin> set s then CHR 0x22 else CHR 0x27)
      in [quote] @ concat (map (repr_char quote) s) @ [quote])"

fun py_repr :: "env \<Rightarrow> pyval \<Rightarrow> string" where
  "py_repr env PyNone = ''None''"
| "py_repr env (PyBool b) = (if b then ''True'' else ''False'')"
| "py_repr env (PyInt i) = dec_int i"
| "py_repr env (PyFloat f) = float_repr env f"
| "py_repr env (PyStr s) = repr_str s"
| "py_repr env (PyList xs) = ''['' @ join '', '' (map (py_repr env) xs) @ '']''"
| "py_repr env (PyDict d) =
     ''{'' @ join '', '' (map (\<lambda>(k, v). repr_str k @ '': '' @ py_repr env v) d) @ ''}''"
| "py_repr env (PyObj c kw) = object_repr env (PyObj c kw)"

text \<open>\<^verbatim>\<open>f"{v}"\<close>, that is \<^verbatim>\<open>str(v)\<close>: a string as it is, anything else as \<^verbatim>\<open>repr\<close> has it.\<close>

definition py_str :: "env \<Rightarrow> pyval \<Rightarrow> string" where
  "py_str env v = (case v of PyStr s \<Rightarrow> s | _ \<Rightarrow> py_repr env v)"

text \<open>Evaluating one argument of a handler call; a failure ends the \<^verbatim>\<open>try\<close> block.\<close>

definition with_arg ::
  "exn + 'a \<Rightarrow> ('a \<Rightarrow> (exn + 'b) \<times> event list) \<Rightarrow> (exn + 'b) \<times> event list" where
  "with_arg arg k = (case arg of Inl e \<Rightarrow> (Inl e, []) | Inr v \<Rightarrow> k v)"

text \<open>\<^verbatim>\<open>data = await handler(..); respond(True, data)\<close>.\<close>

definition respond_data ::
  "('a \<Rightarrow> payload) \<Rightarrow> (exn + 'a) \<times> event list
     \<Rightarrow> (exn + (string \<times> payload) list) \<times> event list" where
  "respond_data wrap outcome =
     (case outcome of
        (Inl e, evs) \<Rightarrow> (Inl e, evs)
      | (Inr data, evs) \<Rightarrow> (Inr (respond True (wrap data) None), evs))"

text \<open>The \<^verbatim>\<open>try\<close> block of \<^verbatim>\<open>main\<close>: what it printed, or the exception that left it.\<close>

definition main_try ::
  "env \<Rightarrow> string \<Rightarrow> (exn + (string \<times> payload) list) \<times> event list" where
  "main_try env request_json =
     with_arg (json_loads env request_json) (\<lambda>request.
     with_arg (py_get request ''action'' PyNone) (\<lambda>action.
     with_arg (py_get request ''params'' (PyDict [])) (\<lambda>params.
       if action = PyStr ''debug'' then
         (Inr (respond True (Json (debug_action env)) None), [])
       else if action = PyStr ''fetch'' then
         with_arg (py_item params ''url'') (\<lambda>url.
         with_arg (py_get params ''format'' (PyStr ''markdown'')) (\<lambda>format.
         with_arg (py_get params ''wait_for'' PyNone) (\<lambda>wait_for.
         with_arg (py_get params ''js_code'' PyNone) (\<lambda>js_code.
         with_arg (py_get params ''timeout'' (PyInt 30)) (\<lambda>timeout.
           respond_data Json (fetch_action env url format wait_for js_code timeout))))))
       else if action = PyStr ''search'' then
         with_arg (py_item params ''query'') (\<lambda>query.
         with_arg (py_get params ''limit'' (PyInt 10)) (\<lambda>limit.
           respond_data (\<lambda>rs. Json (PyList rs)) (search_action env query limit)))
       else if action = PyStr ''extract'' then
         with_arg (py_item params ''url'') (\<lambda>url.
         with_arg (py_item params ''schema'') (\<lambda>schema.
           respond_data Json (extract_action env url schema)))
       else if action = PyStr ''screenshot'' then
         with_arg (py_item params ''url'') (\<lambda>url.
         with_arg (py_get params ''width'' (PyInt 1280)) (\<lambda>width.
         with_arg (py_get params ''height'' (PyInt 720)) (\<lambda>height.
           respond_data Json (screenshot_action env url width height))))
       else if action = PyStr ''crawl'' then
         with_arg (py_item params ''url'') (\<lambda>url.
         with_arg (py_get params ''max_pages'' (PyInt 10)) (\<lambda>max_pages.
         with_arg (py_get params ''max_depth'' (PyInt 2)) (\<lambda>max_depth.
         with_arg (py_get params ''strategy'' (PyStr ''bfs'')) (\<lambda>strategy.
         with_arg (py_get params ''url_pattern'' PyNone) (\<lambda>url_pattern.
           respond_data (\<lambda>ps. Json (PyList ps))
             (crawl_action env url max_pages max_depth strategy url_pattern))))))
       else if action = PyStr ''map'' then
         with_arg (py_item params ''url'') (\<lambda>url.
         with_arg (py_get params ''search'' PyNone) (\<lambda>search.
         with_arg (py_get params ''limit'' (PyInt 100)) (\<lambda>limit.
           respond_data Entries (map_action env url search limit))))
       else
         (Inr (respond False (Json PyNone)
                 (Some (''Unknown action: '' @ py_str env action))), []))))"

text \<open>
  \<^verbatim>\<open>main\<close>: everything printed on standard output, and the events.  The two \<^verbatim>\<open>except\<close>
  clauses turn whatever left the \<^verbatim>\<open>try\<close> block into an error envelope.
\<close>

definition main :: "env \<Rightarrow> string \<Rightarrow> (string \<times> payload) list list \<times> event list" where
  "main env request_json =
     (case main_try env request_json of
        (Inr printed, evs) \<Rightarrow> ([printed], evs)
      | (Inl e, evs) \<Rightarrow>
         (case e of
            JSONDecodeError msg lineno colno pos \<Rightarrow>
              ([respond False (Json PyNone) (Some (''Invalid JSON request: '' @ str_exn e))],
               evs)
          | _ \<Rightarrow> ([respond False (Json PyNone) (Some (str_exn e))], evs)))"

section \<open>Notions used to state the properties\<close>

fun is_dict :: "pyval \<Rightarrow> bool" where
  "is_dict (PyDict d) = True"
| "is_dict v = False"

fun fields_of :: "pyval \<Rightarrow> (string \<times> pyval) list" where
  "fields_of (PyDict d) = d"
| "fields_of v = []"

fun is_ddgs :: "event \<Rightarrow> bool" where
  "is_ddgs (DdgsText query limit) = True"
| "is_ddgs ev = False"

fun is_http :: "event \<Rightarrow> bool" where
  "is_http (HttpGet timeout target params) = True"
| "is_http ev = False"

text \<open>The internal links of the results that \<open>collect_links\<close> reads, in stream order.\<close>

fun internal_links :: "(exn + crawl_result) list \<Rightarrow> link list" where
  "internal_links [] = []"
| "internal_links (Inl e # rest) = []"
| "internal_links (Inr result # rest) =
     (case res_links result of
        Some d \<Rightarrow>
          (if res_success result \<and> d \<noteq> [] then
             (case map_of d ''internal'' of Some found \<Rightarrow> found | None \<Rightarrow> [])
           else [])
      | None \<Rightarrow> [])
     @ internal_links rest"

text \<open>The entries the inner loop may append: those with a truthy \<^verbatim>\<open>url\<close>.\<close>

definition collectable :: "link list \<Rightarrow> map_entry list" where
  "collectable found = filter (\<lambda>entry. url_truthy (entry_url entry)) (map link_entry found)"

text \<open>A list without its repetitions, every element at its first occurrence.\<close>

definition first_seen :: "'a list \<Rightarrow> 'a list" where
  "first_seen xs = rev (remdups (rev xs))"

text \<open>Reading a decimal numeral back.\<close>

definition digit_value :: "char \<Rightarrow> nat" where
  "digit_value c = of_char c - 48"

definition decimal_value :: "string \<Rightarrow> nat" where
  "decimal_value s = foldl (\<lambda>acc c. 10 * acc + digit_value c) 0 s"

definition is_digit :: "char \<Rightarrow> bool" where
  "is_digit c = (48 \<le> (of_char c :: nat) \<and> (of_char c :: nat) \<le> 57)"

text \<open>The keys of a printed envelope.\<close>

definition has_field :: "string \<Rightarrow> (string \<times> payload) list \<Rightarrow> bool" where
  "has_field k envelope = (map_of envelope k \<noteq> None)"

section \<open>Concrete environments\<close>

definition quiet_env :: env where
  "quiet_env =
     \<lparr> SEARXNG_URL = [],
       json_loads = (\<lambda>s. Inl (JSONDecodeError ''Expecting value'' 1 1 0)),
       float_repr = (\<lambda>f. ''nan''),
       float_times = (\<lambda>f k. f),
       object_repr = (\<lambda>v. ''<object>''),
       httpx_get = (\<lambda>timeout target params. Inl (Exception ''connection refused'')),
       ddgs_text = (\<lambda>query limit. Inr []),
       arun = (\<lambda>browser run url. Inl (Exception ''browser not installed'')),
       arun_stream = (\<lambda>browser run url. Inr []),
       url_pattern_filter =
         (\<lambda>pattern. Inr (PyObj ''URLPatternFilter'' [(''patterns'', PyList [pattern])])),
       version_module = None,
       version_attr = None,
       sys_version = ''3.12.0'' \<rparr>"

definition searx_hit :: pyval where
  "searx_hit =
     PyDict [(''url'', PyStr ''https://isabelle.in.tum.de''), (''title'', PyStr ''Isabelle''),
             (''content'', PyStr ''A proof assistant'')]"

definition ddg_hit :: pyval where
  "ddg_hit =
     PyDict [(''href'', PyStr ''https://www.python.org''), (''title'', PyStr ''Python''),
             (''body'', PyStr ''A programming language'')]"

definition searx_page :: http_response where
  "searx_page =
     \<lparr> status_code = 200, json_body = Inr (PyDict [(''results'', PyList [searx_hit])]) \<rparr>"

definition searx_env :: env where
  "searx_env =
     quiet_env \<lparr> SEARXNG_URL := ''http://searx.local/'',
                 httpx_get := (\<lambda>timeout target params. Inr searx_page),
                 ddgs_text := (\<lambda>query limit. Inr [ddg_hit]) \<rparr>"

definition searx_mixed_env :: env where
  "searx_mixed_env =
     quiet_env \<lparr> SEARXNG_URL := ''http://searx.local/'',
                 httpx_get := (\<lambda>timeout target params.
                    Inr \<lparr> status_code = 200,
                          json_body = Inr (PyDict [(''results'',
                                             PyList [searx_hit, PyStr ''oops''])]) \<rparr>),
                 ddgs_text := (\<lambda>query limit. Inr [ddg_hit]) \<rparr>"

definition searx_down_env :: env where
  "searx_down_env =
     quiet_env \<lparr> SEARXNG_URL := ''http://searx.local/'',
                 ddgs_text := (\<lambda>query limit. Inr [ddg_hit]) \<rparr>"

definition no_backend_env :: env where
  "no_backend_env =
     quiet_env \<lparr> ddgs_text := (\<lambda>query limit. Inl (Exception ''No module named ddgs'')) \<rparr>"

definition page :: "string \<Rightarrow> link list \<Rightarrow> crawl_result" where
  "page address found =
     \<lparr> res_success = True, res_error_message = None,
       res_html = ''<html></html>'', res_raw_html = Some ''<html></html>'',
       res_markdown = MarkdownResult ''# Raw'' ''# Clean'',
       res_extracted_content = None, res_screenshot = None,
       res_url = address,
       res_links = Some [(''internal'', found), (''external'', [])] \<rparr>"

definition site_env :: "(exn + crawl_result) list \<Rightarrow> env" where
  "site_env stream =
     quiet_env \<lparr> arun := (\<lambda>browser run url. Inr (page ''https://example.com'' [])),
                 arun_stream := (\<lambda>browser run url. Inr stream) \<rparr>"

definition anchor :: "string \<Rightarrow> string \<Rightarrow> link" where
  "anchor target label = Anchor (Mapping.of_alist [(''href'', target), (''text'', label)])"

definition example_url :: pyval where
  "example_url = PyStr ''https://example.com''"

definition ping_env :: env where
  "ping_env =
     quiet_env \<lparr> json_loads := (\<lambda>s. Inr (PyDict [(''action'', PyStr ''ping'')])) \<rparr>"

definition number_env :: env where
  "number_env =
     quiet_env \<lparr> json_loads := (\<lambda>s. Inr (PyDict [(''action'', PyInt (- 42))])) \<rparr>"

definition silent_failure_env :: env where
  "silent_failure_env =
     quiet_env \<lparr> json_loads :=
                   (\<lambda>s. Inr (PyDict [(''action'', PyStr ''fetch''),
                                      (''params'', PyDict [(''url'', example_url)])])),
                 arun := (\<lambda>browser run url. Inl (Exception [])) \<rparr>"

section \<open>Properties of the search handler\<close>

lemmas env_defs = quiet_env_def searx_env_def searx_down_env_def no_backend_env_def
  searx_page_def searx_hit_def ddg_hit_def site_env_def ping_env_def silent_failure_env_def
  example_url_def

lemmas search_defs = search_action_def searxng_tier_def ddg_tier_def ddg_failed_def
  searxng_failed_def searxng_target_def searxng_params_def rstrip_slash_def py_get_def
  dict_get_def sliced_items_def slice_upto_def search_result_def log_error_def

lemma append_results_dicts:
  "list_all is_dict items \<Longrightarrow>
   append_results uk sk results items =
     (results @ map (\<lambda>item. search_result uk sk (fields_of item)) items, None)"
proof (induction items arbitrary: results)
  case Nil
  then show ?case by simp
next
  case (Cons item items)
  then obtain d where "item = PyDict d" by (cases item) auto
  with Cons show ?case by simp
qed

lemma append_results_raises:
  "\<not> list_all is_dict items \<Longrightarrow>
   \<exists>kept e. append_results uk sk results items = (kept, Some e)"
proof (induction items arbitrary: results)
  case Nil
  then show ?case by simp
next
  case (Cons item items)
  then show ?case by (cases item) auto
qed

lemma ddg_tier_ok:
  assumes "ddgs_text env query limit = Inr hits" and "list_all is_dict hits"
  shows "ddg_tier env query limit results =
           (Inr (results @ map (\<lambda>item. search_result ''href'' ''body'' (fields_of item)) hits),
            [DdgsText query limit])"
  using assms by (simp add: ddg_tier_def append_results_dicts)

lemma ddg_tier_raises:
  assumes "(\<exists>e. ddgs_text env query limit = Inl e)
           \<or> (\<exists>hits. ddgs_text env query limit = Inr hits \<and> \<not> list_all is_dict hits)"
  shows "fst (ddg_tier env query limit results) = Inl (Exception all_failed)"
proof -
  from assms consider e where "ddgs_text env query limit = Inl e"
    | hits where "ddgs_text env query limit = Inr hits" "\<not> list_all is_dict hits"
    by blast
  then show ?thesis
  proof cases
    case 1
    then show ?thesis by (simp add: ddg_tier_def ddg_failed_def)
  next
    case 2
    from append_results_raises[OF 2(2), of "''href''" "''body''" results]
    obtain kept e where "append_results ''href'' ''body'' results hits = (kept, Some e)"
      by blast
    with 2 show ?thesis by (simp add: ddg_tier_def ddg_failed_def)
  qed
qed

lemma ddg_tier_called_once:
  "filter is_ddgs (snd (ddg_tier env query limit results)) = [DdgsText query limit]"
  "filter is_http (snd (ddg_tier env query limit results)) = []"
  by (auto simp: ddg_tier_def ddg_failed_def log_error_def split: sum.splits prod.splits option.splits)

lemma searxng_tier_hit:
  assumes "httpx_get env 10 (searxng_target env) (searxng_params query) = Inr response"
    and "status_code response = 200"
    and "json_body response = Inr (PyDict d)"
    and "dict_get d ''results'' (PyList []) = PyList found"
    and "slice_upto found limit = Inr items"
    and "items \<noteq> []" and "list_all is_dict items"
  shows "searxng_tier env query limit =
           (Returned (map (\<lambda>item. search_result ''url'' ''content'' (fields_of item)) items),
            [HttpGet 10 (searxng_target env) (searxng_params query)])"
  using assms by (simp add: searxng_tier_def py_get_def sliced_items_def append_results_dicts)

lemma search_unconfigured:
  "SEARXNG_URL env = [] \<Longrightarrow> search_action env query limit = ddg_tier env query limit []"
  by (simp add: search_action_def)

lemma search_fell_through:
  assumes "SEARXNG_URL env \<noteq> []"
    and "searxng_tier env query limit = (FellThrough kept, evs)"
  shows "search_action env query limit =
           (fst (ddg_tier env query limit kept), evs @ snd (ddg_tier env query limit kept))"
  using assms by (simp add: search_action_def split: prod.splits)

text \<open>
  Claim C1, as the code has it.  When \<^verbatim>\<open>SEARXNG_URL\<close> is set, the GET answers 200 with a
  JSON object, and the slice \<^verbatim>\<open>results[:limit]\<close> is not empty and holds only objects, then
  \<open>search_action\<close> returns exactly the entries of that slice, each normalised to
  \<^verbatim>\<open>{url, title, snippet}\<close>, and the only event is the GET: the second tier is not called.
  For a limit \<open>n \<ge> 0\<close> the slice is the first \<open>n\<close> entries.  When \<^verbatim>\<open>SEARXNG_URL\<close> is
  empty, the second tier is called exactly once and no GET is made.
\<close>

theorem search_tier1_first:
  "(SEARXNG_URL env \<noteq> [] \<and>
    httpx_get env 10 (searxng_target env) (searxng_params query) = Inr response \<and>
    status_code response = 200 \<and> json_body response = Inr (PyDict d) \<and>
    dict_get d ''results'' (PyList []) = PyList found \<and>
    slice_upto found limit = Inr items \<and> items \<noteq> [] \<and> list_all is_dict items
    \<longrightarrow> search_action env query limit =
          (Inr (map (\<lambda>item. search_result ''url'' ''content'' (fields_of item)) items),
           [HttpGet 10 (searxng_target env) (searxng_params query)]))
   \<and> (0 \<le> n \<longrightarrow> slice_upto found (PyInt n) = Inr (take (nat n) found))
   \<and> (SEARXNG_URL env = []
      \<longrightarrow> filter is_ddgs (snd (search_action env query limit)) = [DdgsText query limit]
          \<and> filter is_http (snd (search_action env query limit)) = [])"
proof (intro conjI impI)
  assume h: "SEARXNG_URL env \<noteq> [] \<and>
    httpx_get env 10 (searxng_target env) (searxng_params query) = Inr response \<and>
    status_code response = 200 \<and> json_body response = Inr (PyDict d) \<and>
    dict_get d ''results'' (PyList []) = PyList found \<and>
    slice_upto found limit = Inr items \<and> items \<noteq> [] \<and> list_all is_dict items"
  then have "searxng_tier env query limit =
           (Returned (map (\<lambda>item. search_result ''url'' ''content'' (fields_of item)) items),
            [HttpGet 10 (searxng_target env) (searxng_params query)])"
    by (intro searxng_tier_hit) auto
  with h show "search_action env query limit =
          (Inr (map (\<lambda>item. search_result ''url'' ''content'' (fields_of item)) items),
           [HttpGet 10 (searxng_target env) (searxng_params query)])"
    by (simp add: search_action_def)
next
  assume "0 \<le> n"
  then show "slice_upto found (PyInt n) = Inr (take (nat n) found)"
    by (simp add: slice_upto_def)
next
  assume "SEARXNG_URL env = []"
  then show "filter is_ddgs (snd (search_action env query limit)) = [DdgsText query limit]"
    by (simp add: search_unconfigured ddg_tier_called_once)
next
  assume "SEARXNG_URL env = []"
  then show "filter is_http (snd (search_action env query limit)) = []"
    by (simp add: search_unconfigured ddg_tier_called_once)
qed

text \<open>The three parts of C1 at concrete inputs: a configured first tier with one hit and
  limit 10, and an unconfigured one.\<close>

theorem search_tier1_first_witness:
  "search_action searx_env (PyStr ''isabelle'') (PyInt 10) =
     (Inr [PyDict [(''url'', PyStr ''https://isabelle.in.tum.de''), (''title'', PyStr ''Isabelle''),
                   (''snippet'', PyStr ''A proof assistant'')]],
      [HttpGet 10 ''http://searx.local/search''
         (PyDict [(''q'', PyStr ''isabelle''), (''format'', PyStr ''json'')])])
   \<and> slice_upto [searx_hit] (PyInt 10) = Inr (take 10 [searx_hit])
   \<and> filter is_ddgs (snd (search_action quiet_env (PyStr ''isabelle'') (PyInt 10)))
       = [DdgsText (PyStr ''isabelle'') (PyInt 10)]"
  using search_tier1_first [of searx_env "PyStr ''isabelle''" searx_page
      "[(''results'', PyList [searx_hit])]" "[searx_hit]" "PyInt 10" "[searx_hit]" 10]
    search_tier1_first [of quiet_env "PyStr ''isabelle''" searx_page
      "[(''results'', PyList [searx_hit])]" "[searx_hit]" "PyInt 10" "[searx_hit]" 10]
  by (simp add: env_defs searxng_target_def searxng_params_def rstrip_slash_def dict_get_def
      slice_upto_def search_result_def)

text \<open>
  C1 as it is worded fails for limit 0: the first tier is configured, answers 200 and its
  body holds a normalisable result, yet the slice is empty, the second tier is called and
  its results are returned.
\<close>

theorem search_tier1_first_counterexample:
  "SEARXNG_URL searx_env \<noteq> []
   \<and> httpx_get searx_env 10 (searxng_target searx_env) (searxng_params (PyStr ''isabelle''))
       = Inr searx_page
   \<and> status_code searx_page = 200
   \<and> json_body searx_page = Inr (PyDict [(''results'', PyList [searx_hit])])
   \<and> is_dict searx_hit
   \<and> search_action searx_env (PyStr ''isabelle'') (PyInt 0) =
       (Inr [search_result ''href'' ''body'' (fields_of ddg_hit)],
        [HttpGet 10 ''http://searx.local/search'' (searxng_params (PyStr ''isabelle'')),
         DdgsText (PyStr ''isabelle'') (PyInt 0)])"
  by (simp add: env_defs search_defs)


text \<open>
  The list \<^verbatim>\<open>results\<close> is shared by the two tiers.  When the first tier raises in the
  middle of its loop (here on a second entry that is not an object), the entry it had
  appended stays, the second tier is called, and its results follow the first tier's.
\<close>

lemma search_partial_results_stay:
  "search_action searx_mixed_env (PyStr ''isabelle'') (PyInt 10) =
     (Inr [search_result ''url'' ''content'' (fields_of searx_hit),
           search_result ''href'' ''body'' (fields_of ddg_hit)],
      [HttpGet 10 ''http://searx.local/search'' (searxng_params (PyStr ''isabelle'')),
       Stderr (''[bridge error] SearXNG search failed: '' @ quoted ''str''
               @ '' object has no attribute '' @ quoted ''get''),
       DdgsText (PyStr ''isabelle'') (PyInt 10)])"
  by (simp add: searx_mixed_env_def env_defs search_defs no_attribute_def quoted_def)

lemma searxng_tier_no_ddgs:
  "filter is_ddgs (snd (searxng_tier env query limit)) = []"
  by (auto simp: searxng_tier_def searxng_failed_def log_error_def
      split: sum.splits prod.splits option.splits)

lemma searxng_transport_error:
  "httpx_get env 10 (searxng_target env) (searxng_params query) = Inl e \<Longrightarrow>
   searxng_tier env query limit = (FellThrough [], searxng_failed env query e)"
  by (simp add: searxng_tier_def)

lemma searxng_bad_status:
  "httpx_get env 10 (searxng_target env) (searxng_params query) = Inr response \<Longrightarrow>
   status_code response \<noteq> 200 \<Longrightarrow>
   searxng_tier env query limit =
     (FellThrough [], [HttpGet 10 (searxng_target env) (searxng_params query)])"
  by (simp add: searxng_tier_def)

lemma searxng_bad_body:
  "httpx_get env 10 (searxng_target env) (searxng_params query) = Inr response \<Longrightarrow>
   status_code response = 200 \<Longrightarrow> json_body response = Inl e \<Longrightarrow>
   searxng_tier env query limit = (FellThrough [], searxng_failed env query e)"
  by (simp add: searxng_tier_def)

lemma searxng_empty:
  "httpx_get env 10 (searxng_target env) (searxng_params query) = Inr response \<Longrightarrow>
   status_code response = 200 \<Longrightarrow> json_body response = Inr (PyDict d) \<Longrightarrow>
   dict_get d ''results'' (PyList []) = PyList found \<Longrightarrow>
   slice_upto found limit = Inr [] \<Longrightarrow>
   searxng_tier env query limit =
     (FellThrough [], [HttpGet 10 (searxng_target env) (searxng_params query)])"
  by (simp add: searxng_tier_def py_get_def sliced_items_def)

lemma search_succeeds_with_tier2:
  assumes "ddgs_text env query limit = Inr hits" and "list_all is_dict hits"
  shows "\<exists>results. fst (search_action env query limit) = Inr results"
proof (cases "SEARXNG_URL env = []")
  case True
  with assms show ?thesis by (simp add: search_unconfigured ddg_tier_ok)
next
  case False
  obtain t evs where t: "searxng_tier env query limit = (t, evs)" by (cases "searxng_tier env query limit")
  show ?thesis
  proof (cases t)
    case (Returned results)
    with t False show ?thesis by (simp add: search_action_def)
  next
    case (FellThrough kept)
    with t False assms show ?thesis by (simp add: search_fell_through ddg_tier_ok)
  qed
qed

text \<open>
  What makes the first tier fall through, stated on what the GET returned: a body that
  is not an object, a \<^verbatim>\<open>results\<close> value that cannot be sliced, an entry that is not an
  object (the entries before it stay appended), and an empty slice.  The first tier
  returns only on a 200 answer whose slice is non-empty and holds only objects.
\<close>

lemma append_results_stops:
  "list_all is_dict pre \<Longrightarrow> \<not> is_dict bad \<Longrightarrow>
   append_results uk sk results (pre @ bad # post) =
     (results @ map (\<lambda>item. search_result uk sk (fields_of item)) pre,
      Some (no_attribute bad ''get''))"
proof (induction pre arbitrary: results)
  case Nil
  then show ?case by (cases bad) auto
next
  case (Cons item pre)
  then obtain d where "item = PyDict d" by (cases item) auto
  with Cons show ?case by simp
qed

lemma append_results_clean:
  "append_results uk sk results items = (out, None) \<Longrightarrow> list_all is_dict items"
  using append_results_raises[of items uk sk results] by auto

lemma searxng_body_not_object:
  "httpx_get env 10 (searxng_target env) (searxng_params query) = Inr response \<Longrightarrow>
   status_code response = 200 \<Longrightarrow> json_body response = Inr data \<Longrightarrow> \<not> is_dict data \<Longrightarrow>
   searxng_tier env query limit =
     (FellThrough [], searxng_failed env query (no_attribute data ''get''))"
  by (cases data) (simp_all add: searxng_tier_def py_get_def)

lemma searxng_unsliceable:
  "httpx_get env 10 (searxng_target env) (searxng_params query) = Inr response \<Longrightarrow>
   status_code response = 200 \<Longrightarrow> json_body response = Inr (PyDict d) \<Longrightarrow>
   sliced_items (dict_get d ''results'' (PyList [])) limit = Inl e \<Longrightarrow>
   searxng_tier env query limit = (FellThrough [], searxng_failed env query e)"
  by (simp add: searxng_tier_def py_get_def)

lemma searxng_bad_entry:
  "httpx_get env 10 (searxng_target env) (searxng_params query) = Inr response \<Longrightarrow>
   status_code response = 200 \<Longrightarrow> json_body response = Inr (PyDict d) \<Longrightarrow>
   sliced_items (dict_get d ''results'' (PyList [])) limit = Inr (pre @ bad # post) \<Longrightarrow>
   list_all is_dict pre \<Longrightarrow> \<not> is_dict bad \<Longrightarrow>
   searxng_tier env query limit =
     (FellThrough (map (\<lambda>item. search_result ''url'' ''content'' (fields_of item)) pre),
      searxng_failed env query (no_attribute bad ''get''))"
  by (simp add: searxng_tier_def py_get_def append_results_stops)

lemma searxng_empty_slice:
  "httpx_get env 10 (searxng_target env) (searxng_params query) = Inr response \<Longrightarrow>
   status_code response = 200 \<Longrightarrow> json_body response = Inr (PyDict d) \<Longrightarrow>
   sliced_items (dict_get d ''results'' (PyList [])) limit = Inr [] \<Longrightarrow>
   searxng_tier env query limit =
     (FellThrough [], [HttpGet 10 (searxng_target env) (searxng_params query)])"
  by (simp add: searxng_tier_def py_get_def)

lemma searxng_returns_only_on_hit:
  assumes "searxng_tier env query limit = (Returned results, evs)"
  shows "\<exists>response d items.
           httpx_get env 10 (searxng_target env) (searxng_params query) = Inr response
         \<and> status_code response = 200 \<and> json_body response = Inr (PyDict d)
         \<and> sliced_items (dict_get d ''results'' (PyList [])) limit = Inr items
         \<and> items \<noteq> [] \<and> list_all is_dict items"
proof -
  from assms obtain response where
    r: "httpx_get env 10 (searxng_target env) (searxng_params query) = Inr response"
    by (cases "httpx_get env 10 (searxng_target env) (searxng_params query)")
       (auto simp: searxng_tier_def)
  with assms have st: "status_code response = 200"
    by (auto simp: searxng_tier_def split: if_splits)
  with assms r obtain data where b: "json_body response = Inr data"
    by (cases "json_body response") (auto simp: searxng_tier_def)
  with assms r st obtain d where d: "data = PyDict d"
    by (cases data) (auto simp: searxng_tier_def py_get_def)
  with assms r st b obtain items where
    i: "sliced_items (dict_get d ''results'' (PyList [])) limit = Inr items"
    by (cases "sliced_items (dict_get d ''results'' (PyList [])) limit")
       (auto simp: searxng_tier_def py_get_def)
  obtain out err where a: "append_results ''url'' ''content'' [] items = (out, err)"
    by (cases "append_results ''url'' ''content'' [] items")
  with assms r st b d i have "err = None" and "out \<noteq> []"
    by (auto simp: searxng_tier_def py_get_def split: option.splits if_splits)
  with a have clean: "list_all is_dict items" by (auto dest: append_results_clean)
  with a \<open>out \<noteq> []\<close> have "items \<noteq> []" by (auto simp: append_results_dicts)
  with r st b d i clean show ?thesis by blast
qed


lemma search_invokes_tier2_unless_hit:
  assumes configured: "SEARXNG_URL env \<noteq> []"
    and tier2: "ddgs_text env query limit = Inr hits" "list_all is_dict hits"
    and miss: "\<not> (\<exists>response d items.
           httpx_get env 10 (searxng_target env) (searxng_params query) = Inr response
         \<and> status_code response = 200 \<and> json_body response = Inr (PyDict d)
         \<and> sliced_items (dict_get d ''results'' (PyList [])) limit = Inr items
         \<and> items \<noteq> [] \<and> list_all is_dict items)"
  shows "\<exists>kept evs.
           search_action env query limit =
             (Inr (kept @ map (\<lambda>item. search_result ''href'' ''body'' (fields_of item)) hits),
              evs @ [DdgsText query limit])
         \<and> filter is_ddgs evs = []"
proof -
  obtain t evs where t: "searxng_tier env query limit = (t, evs)"
    by (cases "searxng_tier env query limit")
  show ?thesis
  proof (cases t)
    case (Returned results)
    with t miss searxng_returns_only_on_hit[of env query limit results evs]
    show ?thesis by blast
  next
    case (FellThrough kept)
    with t configured tier2 have
      "search_action env query limit =
         (Inr (kept @ map (\<lambda>item. search_result ''href'' ''body'' (fields_of item)) hits),
          evs @ [DdgsText query limit])"
      by (simp add: search_fell_through ddg_tier_ok)
    moreover have "filter is_ddgs evs = []"
      using searxng_tier_no_ddgs[of env query limit] t by simp
    ultimately show ?thesis by blast
  qed
qed

text \<open>
  Claim C2.  With the first tier configured and a second tier that succeeds (it returns a
  list of objects), \<open>search_action\<close> returns a result whatever the first tier did.  When
  the GET raises, when the status is not 200, when the body does not decode, when the body
  is not an object, when \<^verbatim>\<open>results\<close> cannot be sliced, when an entry is not an object, and
  when the slice is empty, the second tier is called, as the last event, and its results
  are returned; every exception of the first tier leaves one line on standard error and
  none reaches the caller.  In general, unless the GET answers 200 with a non-empty slice
  of objects, the second tier is called exactly once, last, and its results end the
  returned list.  What the first tier had appended before an entry that is not an object
  stays in front of the second tier's results.
\<close>

theorem search_tier1_failure_isolated:
  assumes configured: "SEARXNG_URL env \<noteq> []"
    and tier2: "ddgs_text env query limit = Inr hits" "list_all is_dict hits"
  shows "(\<exists>results. fst (search_action env query limit) = Inr results)
    \<and> (\<forall>e. httpx_get env 10 (searxng_target env) (searxng_params query) = Inl e \<longrightarrow>
          search_action env query limit =
            (Inr (map (\<lambda>item. search_result ''href'' ''body'' (fields_of item)) hits),
             searxng_failed env query e @ [DdgsText query limit]))
    \<and> (\<forall>response.
          httpx_get env 10 (searxng_target env) (searxng_params query) = Inr response
          \<and> status_code response \<noteq> 200 \<longrightarrow>
          search_action env query limit =
            (Inr (map (\<lambda>item. search_result ''href'' ''body'' (fields_of item)) hits),
             [HttpGet 10 (searxng_target env) (searxng_params query), DdgsText query limit]))
    \<and> (\<forall>response e.
          httpx_get env 10 (searxng_target env) (searxng_params query) = Inr response
          \<and> status_code response = 200 \<and> json_body response = Inl e \<longrightarrow>
          search_action env query limit =
            (Inr (map (\<lambda>item. search_result ''href'' ''body'' (fields_of item)) hits),
             searxng_failed env query e @ [DdgsText query limit]))
    \<and> (\<forall>response data.
          httpx_get env 10 (searxng_target env) (searxng_params query) = Inr response
          \<and> status_code response = 200 \<and> json_body response = Inr data
          \<and> \<not> is_dict data \<longrightarrow>
          search_action env query limit =
            (Inr (map (\<lambda>item. search_result ''href'' ''body'' (fields_of item)) hits),
             searxng_failed env query (no_attribute data ''get'') @ [DdgsText query limit]))
    \<and> (\<forall>response d e.
          httpx_get env 10 (searxng_target env) (searxng_params query) = Inr response
          \<and> status_code response = 200 \<and> json_body response = Inr (PyDict d)
          \<and> sliced_items (dict_get d ''results'' (PyList [])) limit = Inl e \<longrightarrow>
          search_action env query limit =
            (Inr (map (\<lambda>item. search_result ''href'' ''body'' (fields_of item)) hits),
             searxng_failed env query e @ [DdgsText query limit]))
    \<and> (\<forall>response d pre bad post.
          httpx_get env 10 (searxng_target env) (searxng_params query) = Inr response
          \<and> status_code response = 200 \<and> json_body response = Inr (PyDict d)
          \<and> sliced_items (dict_get d ''results'' (PyList [])) limit = Inr (pre @ bad # post)
          \<and> list_all is_dict pre \<and> \<not> is_dict bad \<longrightarrow>
          search_action env query limit =
            (Inr (map (\<lambda>item. search_result ''url'' ''content'' (fields_of item)) pre
                  @ map (\<lambda>item. search_result ''href'' ''body'' (fields_of item)) hits),
             searxng_failed env query (no_attribute bad ''get'') @ [DdgsText query limit]))
    \<and> (\<forall>response d.
          httpx_get env 10 (searxng_target env) (searxng_params query) = Inr response
          \<and> status_code response = 200 \<and> json_body response = Inr (PyDict d)
          \<and> sliced_items (dict_get d ''results'' (PyList [])) limit = Inr [] \<longrightarrow>
          search_action env query limit =
            (Inr (map (\<lambda>item. search_result ''href'' ''body'' (fields_of item)) hits),
             [HttpGet 10 (searxng_target env) (searxng_params query), DdgsText query limit]))
    \<and> (\<forall>response d found.
          httpx_get env 10 (searxng_target env) (searxng_params query) = Inr response
          \<and> status_code response = 200 \<and> json_body response = Inr (PyDict d)
          \<and> dict_get d ''results'' (PyList []) = PyList found
          \<and> slice_upto found limit = Inr [] \<longrightarrow>
          search_action env query limit =
            (Inr (map (\<lambda>item. search_result ''href'' ''body'' (fields_of item)) hits),
             [HttpGet 10 (searxng_target env) (searxng_params query), DdgsText query limit]))
    \<and> (\<not> (\<exists>response d items.
             httpx_get env 10 (searxng_target env) (searxng_params query) = Inr response
           \<and> status_code response = 200 \<and> json_body response = Inr (PyDict d)
           \<and> sliced_items (dict_get d ''results'' (PyList [])) limit = Inr items
           \<and> items \<noteq> [] \<and> list_all is_dict items) \<longrightarrow>
        (\<exists>kept evs.
           search_action env query limit =
             (Inr (kept @ map (\<lambda>item. search_result ''href'' ''body'' (fields_of item)) hits),
              evs @ [DdgsText query limit])
         \<and> filter is_ddgs evs = []))
    \<and> (\<forall>kept. fst (searxng_tier env query limit) = FellThrough kept \<longrightarrow>
          search_action env query limit =
            (Inr (kept @ map (\<lambda>item. search_result ''href'' ''body'' (fields_of item)) hits),
             snd (searxng_tier env query limit) @ [DdgsText query limit]))"
proof -
  have through: "search_action env query limit =
      (Inr (kept @ map (\<lambda>item. search_result ''href'' ''body'' (fields_of item)) hits),
       evs @ [DdgsText query limit])"
    if "searxng_tier env query limit = (FellThrough kept, evs)" for kept evs
    using that configured tier2 by (simp add: search_fell_through ddg_tier_ok)
  have a: "\<exists>results. fst (search_action env query limit) = Inr results"
    using tier2 by (rule search_succeeds_with_tier2)
  have b: "\<forall>e. httpx_get env 10 (searxng_target env) (searxng_params query) = Inl e \<longrightarrow>
          search_action env query limit =
            (Inr (map (\<lambda>item. search_result ''href'' ''body'' (fields_of item)) hits),
             searxng_failed env query e @ [DdgsText query limit])"
    using through[OF searxng_transport_error] by simp
  have c: "\<forall>response.
          httpx_get env 10 (searxng_target env) (searxng_params query) = Inr response
          \<and> status_code response \<noteq> 200 \<longrightarrow>
          search_action env query limit =
            (Inr (map (\<lambda>item. search_result ''href'' ''body'' (fields_of item)) hits),
             [HttpGet 10 (searxng_target env) (searxng_params query), DdgsText query limit])"
    using through[OF searxng_bad_status] by simp
  have d: "\<forall>response e.
          httpx_get env 10 (searxng_target env) (searxng_params query) = Inr response
          \<and> status_code response = 200 \<and> json_body response = Inl e \<longrightarrow>
          search_action env query limit =
            (Inr (map (\<lambda>item. search_result ''href'' ''body'' (fields_of item)) hits),
             searxng_failed env query e @ [DdgsText query limit])"
    using through[OF searxng_bad_body] by simp
  have e: "\<forall>response data.
          httpx_get env 10 (searxng_target env) (searxng_params query) = Inr response
          \<and> status_code response = 200 \<and> json_body response = Inr data
          \<and> \<not> is_dict data \<longrightarrow>
          search_action env query limit =
            (Inr (map (\<lambda>item. search_result ''href'' ''body'' (fields_of item)) hits),
             searxng_failed env query (no_attribute data ''get'') @ [DdgsText query limit])"
    using through[OF searxng_body_not_object] by simp
  have f: "\<forall>response d e.
          httpx_get env 10 (searxng_target env) (searxng_params query) = Inr response
          \<and> status_code response = 200 \<and> json_body response = Inr (PyDict d)
          \<and> sliced_items (dict_get d ''results'' (PyList [])) limit = Inl e \<longrightarrow>
          search_action env query limit =
            (Inr (map (\<lambda>item. search_result ''href'' ''body'' (fields_of item)) hits),
             searxng_failed env query e @ [DdgsText query limit])"
    using through[OF searxng_unsliceable] by simp
  have g: "\<forall>response d pre bad post.
          httpx_get env 10 (searxng_target env) (searxng_params query) = Inr response
          \<and> status_code response = 200 \<and> json_body response = Inr (PyDict d)
          \<and> sliced_items (dict_get d ''results'' (PyList [])) limit = Inr (pre @ bad # post)
          \<and> list_all is_dict pre \<and> \<not> is_dict bad \<longrightarrow>
          search_action env query limit =
            (Inr (map (\<lambda>item. search_result ''url'' ''content'' (fields_of item)) pre
                  @ map (\<lambda>item. search_result ''href'' ''body'' (fields_of item)) hits),
             searxng_failed env query (no_attribute bad ''get'') @ [DdgsText query limit])"
    using through[OF searxng_bad_entry] by simp
  have h: "\<forall>response d.
          httpx_get env 10 (searxng_target env) (searxng_params query) = Inr response
          \<and> status_code response = 200 \<and> json_body response = Inr (PyDict d)
          \<and> sliced_items (dict_get d ''results'' (PyList [])) limit = Inr [] \<longrightarrow>
          search_action env query limit =
            (Inr (map (\<lambda>item. search_result ''href'' ''body'' (fields_of item)) hits),
             [HttpGet 10 (searxng_target env) (searxng_params query), DdgsText query limit])"
    using through[OF searxng_empty_slice] by simp
  have i: "\<forall>response d found.
          httpx_get env 10 (searxng_target env) (searxng_params query) = Inr response
          \<and> status_code response = 200 \<and> json_body response = Inr (PyDict d)
          \<and> dict_get d ''results'' (PyList []) = PyList found
          \<and> slice_upto found limit = Inr [] \<longrightarrow>
          search_action env query limit =
            (Inr (map (\<lambda>item. search_result ''href'' ''body'' (fields_of item)) hits),
             [HttpGet 10 (searxng_target env) (searxng_params query), DdgsText query limit])"
    using through[OF searxng_empty] by simp
  have j: "\<not> (\<exists>response d items.
             httpx_get env 10 (searxng_target env) (searxng_params query) = Inr response
           \<and> status_code response = 200 \<and> json_body response = Inr (PyDict d)
           \<and> sliced_items (dict_get d ''results'' (PyList [])) limit = Inr items
           \<and> items \<noteq> [] \<and> list_all is_dict items) \<longrightarrow>
        (\<exists>kept evs.
           search_action env query limit =
             (Inr (kept @ map (\<lambda>item. search_result ''href'' ''body'' (fields_of item)) hits),
              evs @ [DdgsText query limit])
         \<and> filter is_ddgs evs = [])"
    using search_invokes_tier2_unless_hit[OF configured tier2] by blast
  have k: "\<forall>kept. fst (searxng_tier env query limit) = FellThrough kept \<longrightarrow>
          search_action env query limit =
            (Inr (kept @ map (\<lambda>item. search_result ''href'' ''body'' (fields_of item)) hits),
             snd (searxng_tier env query limit) @ [DdgsText query limit])"
    using through[of _ "snd (searxng_tier env query limit)"]
    by (cases "searxng_tier env query limit") simp
  show ?thesis
    by (intro conjI a b c d e f g h i j k)
qed


text \<open>C2 with an unreachable first tier, and with a first tier whose second entry is
  not an object.\<close>

theorem search_tier1_failure_isolated_witness:
  "search_action searx_down_env (PyStr ''python'') (PyInt 5) =
     (Inr [PyDict [(''url'', PyStr ''https://www.python.org''), (''title'', PyStr ''Python''),
                   (''snippet'', PyStr ''A programming language'')]],
      [HttpGet 10 ''http://searx.local/search''
         (PyDict [(''q'', PyStr ''python''), (''format'', PyStr ''json'')]),
       Stderr ''[bridge error] SearXNG search failed: connection refused'',
       DdgsText (PyStr ''python'') (PyInt 5)])
   \<and> search_action searx_mixed_env (PyStr ''python'') (PyInt 5) =
     (Inr [PyDict [(''url'', PyStr ''https://isabelle.in.tum.de''), (''title'', PyStr ''Isabelle''),
                   (''snippet'', PyStr ''A proof assistant'')],
           PyDict [(''url'', PyStr ''https://www.python.org''), (''title'', PyStr ''Python''),
                   (''snippet'', PyStr ''A programming language'')]],
      [HttpGet 10 ''http://searx.local/search''
         (PyDict [(''q'', PyStr ''python''), (''format'', PyStr ''json'')]),
       Stderr (''[bridge error] SearXNG search failed: '' @ quoted ''str''
               @ '' object has no attribute '' @ quoted ''get''),
       DdgsText (PyStr ''python'') (PyInt 5)])"
proof -
  have down: "SEARXNG_URL searx_down_env \<noteq> []"
    "ddgs_text searx_down_env (PyStr ''python'') (PyInt 5) = Inr [ddg_hit]"
    "list_all is_dict [ddg_hit]"
    and refused: "httpx_get searx_down_env 10 (searxng_target searx_down_env)
           (searxng_params (PyStr ''python'')) = Inl (Exception ''connection refused'')"
    by (simp_all add: env_defs)
  from search_tier1_failure_isolated
         [OF down, THEN conjunct2, THEN conjunct1, rule_format, OF refused]
  have "search_action searx_down_env (PyStr ''python'') (PyInt 5) =
          (Inr (map (\<lambda>item. search_result ''href'' ''body'' (fields_of item)) [ddg_hit]),
           searxng_failed searx_down_env (PyStr ''python'') (Exception ''connection refused'')
           @ [DdgsText (PyStr ''python'') (PyInt 5)])"
    .
  then have first: "search_action searx_down_env (PyStr ''python'') (PyInt 5) =
     (Inr [PyDict [(''url'', PyStr ''https://www.python.org''), (''title'', PyStr ''Python''),
                   (''snippet'', PyStr ''A programming language'')]],
      [HttpGet 10 ''http://searx.local/search''
         (PyDict [(''q'', PyStr ''python''), (''format'', PyStr ''json'')]),
       Stderr ''[bridge error] SearXNG search failed: connection refused'',
       DdgsText (PyStr ''python'') (PyInt 5)])"
    by (simp add: env_defs searxng_failed_def searxng_target_def searxng_params_def
        rstrip_slash_def log_error_def search_result_def dict_get_def)
  let ?body = "\<lparr> status_code = 200,
                 json_body = Inr (PyDict [(''results'', PyList [searx_hit, PyStr ''oops''])]) \<rparr>"
  have mixed: "SEARXNG_URL searx_mixed_env \<noteq> []"
    "ddgs_text searx_mixed_env (PyStr ''python'') (PyInt 5) = Inr [ddg_hit]"
    "list_all is_dict [ddg_hit]"
    and entry: "httpx_get searx_mixed_env 10 (searxng_target searx_mixed_env)
           (searxng_params (PyStr ''python'')) = Inr ?body
         \<and> status_code ?body = 200
         \<and> json_body ?body = Inr (PyDict [(''results'', PyList [searx_hit, PyStr ''oops''])])
         \<and> sliced_items (dict_get [(''results'', PyList [searx_hit, PyStr ''oops''])]
                             ''results'' (PyList [])) (PyInt 5)
             = Inr ([searx_hit] @ PyStr ''oops'' # [])
         \<and> list_all is_dict [searx_hit] \<and> \<not> is_dict (PyStr ''oops'')"
    by (simp_all add: searx_mixed_env_def env_defs dict_get_def sliced_items_def slice_upto_def)
  from search_tier1_failure_isolated
         [OF mixed, THEN conjunct2, THEN conjunct2, THEN conjunct2, THEN conjunct2,
          THEN conjunct2, THEN conjunct2, THEN conjunct1, rule_format, OF entry]
  have "search_action searx_mixed_env (PyStr ''python'') (PyInt 5) =
          (Inr (map (\<lambda>item. search_result ''url'' ''content'' (fields_of item)) [searx_hit]
                @ map (\<lambda>item. search_result ''href'' ''body'' (fields_of item)) [ddg_hit]),
           searxng_failed searx_mixed_env (PyStr ''python'')
             (no_attribute (PyStr ''oops'') ''get'')
           @ [DdgsText (PyStr ''python'') (PyInt 5)])"
    .
  then have second: "search_action searx_mixed_env (PyStr ''python'') (PyInt 5) =
     (Inr [PyDict [(''url'', PyStr ''https://isabelle.in.tum.de''), (''title'', PyStr ''Isabelle''),
                   (''snippet'', PyStr ''A proof assistant'')],
           PyDict [(''url'', PyStr ''https://www.python.org''), (''title'', PyStr ''Python''),
                   (''snippet'', PyStr ''A programming language'')]],
      [HttpGet 10 ''http://searx.local/search''
         (PyDict [(''q'', PyStr ''python''), (''format'', PyStr ''json'')]),
       Stderr (''[bridge error] SearXNG search failed: '' @ quoted ''str''
               @ '' object has no attribute '' @ quoted ''get''),
       DdgsText (PyStr ''python'') (PyInt 5)])"
    by (simp add: searx_mixed_env_def env_defs searxng_failed_def searxng_target_def
        searxng_params_def rstrip_slash_def log_error_def search_result_def dict_get_def
        no_attribute_def quoted_def)
  from first second show ?thesis by simp
qed


text \<open>
  Claim C8.  When the first tier yields nothing (it is unconfigured, or it fell through)
  and the second tier raises (the call raises, or one of its items is not an object),
  \<open>search_action\<close> raises an exception whose message mentions "search backends" and
  says to configure \<^verbatim>\<open>SEARXNG_URL\<close>.
\<close>

theorem search_all_backends_failed:
  assumes tier1: "SEARXNG_URL env = []
                  \<or> (\<exists>kept. fst (searxng_tier env query limit) = FellThrough kept)"
    and tier2: "(\<exists>e. ddgs_text env query limit = Inl e)
                \<or> (\<exists>hits. ddgs_text env query limit = Inr hits \<and> \<not> list_all is_dict hits)"
  shows "fst (search_action env query limit) = Inl (Exception all_failed)
         \<and> contains ''search backends'' all_failed
         \<and> contains ''Configure SEARXNG_URL'' all_failed"
proof -
  have "fst (search_action env query limit) = Inl (Exception all_failed)"
  proof (cases "SEARXNG_URL env = []")
    case True
    then show ?thesis by (simp add: search_unconfigured ddg_tier_raises[OF tier2])
  next
    case False
    with tier1 obtain kept where "fst (searxng_tier env query limit) = FellThrough kept"
      by blast
    then have "searxng_tier env query limit = (FellThrough kept, snd (searxng_tier env query limit))"
      by (cases "searxng_tier env query limit") simp
    from search_fell_through[OF False this] show ?thesis
      by (simp add: ddg_tier_raises[OF tier2])
  qed
  moreover have "contains ''search backends'' all_failed"
    by (simp add: all_failed_def)
  moreover have "contains ''Configure SEARXNG_URL'' all_failed"
    by (simp add: all_failed_def)
  ultimately show ?thesis by simp
qed

text \<open>C8 with no first tier and a second tier whose import fails.\<close>

theorem search_all_backends_failed_witness:
  "search_action no_backend_env (PyStr ''python'') (PyInt 5) =
     (Inl (Exception
        ''All search backends failed. Configure SEARXNG_URL or ensure ddgs is available.''),
      [DdgsText (PyStr ''python'') (PyInt 5),
       Stderr ''[bridge error] DDG search failed: No module named ddgs''])"
proof -
  have "SEARXNG_URL no_backend_env = []
        \<or> (\<exists>kept. fst (searxng_tier no_backend_env (PyStr ''python'') (PyInt 5)) = FellThrough kept)"
    by (simp add: env_defs)
  moreover have "(\<exists>e. ddgs_text no_backend_env (PyStr ''python'') (PyInt 5) = Inl e)
     \<or> (\<exists>hits. ddgs_text no_backend_env (PyStr ''python'') (PyInt 5) = Inr hits
           \<and> \<not> list_all is_dict hits)"
    by (simp add: env_defs)
  ultimately have "fst (search_action no_backend_env (PyStr ''python'') (PyInt 5))
                     = Inl (Exception all_failed)"
    using search_all_backends_failed by blast
  moreover have "snd (search_action no_backend_env (PyStr ''python'') (PyInt 5)) =
      [DdgsText (PyStr ''python'') (PyInt 5),
       Stderr ''[bridge error] DDG search failed: No module named ddgs'']"
    by (simp add: env_defs search_defs)
  ultimately show ?thesis by (simp add: all_failed_def prod_eq_iff)
qed



section \<open>Properties of the crawl and fetch handlers\<close>

lemma len_ge_int: "len_ge k (PyInt n) = Inr (n \<le> int k)"
  by (simp add: len_ge_def)

text \<open>
  For a ceiling of at least one the loop never returns more pages than \<^verbatim>\<open>max_pages\<close>.
\<close>

lemma collect_pages_ceiling:
  "collect_pages (PyInt n) pages stream = (Inr out, rest) \<Longrightarrow>
   1 \<le> n \<Longrightarrow> int (length pages) < n \<Longrightarrow> int (length out) \<le> n"
proof (induction stream arbitrary: pages)
  case Nil
  then show ?case by simp
next
  case (Cons item stream)
  show ?case
  proof (cases item)
    case (Inl e)
    with Cons.prems show ?thesis by simp
  next
    case (Inr result)
    show ?thesis
    proof (cases "res_success result")
      case False
      with Inr Cons show ?thesis by simp
    next
      case True
      show ?thesis
      proof (cases "n \<le> int (length pages) + 1")
        case True
        with Inr \<open>res_success result\<close> Cons.prems show ?thesis
          by (auto simp: len_ge_int Let_def)
      next
        case False
        with Inr \<open>res_success result\<close> Cons.prems
        have "collect_pages (PyInt n)
                (pages @ [PyDict [(''url'', PyStr (res_url result)),
                   (''markdown'', PyStr (case res_markdown result of
                           MarkdownResult raw fit \<Rightarrow> raw
                         | MarkdownText s \<Rightarrow> s))]]) stream = (Inr out, rest)"
          by (simp add: len_ge_int Let_def)
        from Cons.IH[OF this] False Cons.prems show ?thesis by simp
      qed
    qed
  qed
qed

lemma crawl_action_ceiling:
  assumes "fst (crawl_action env url (PyInt n) max_depth strategy url_pattern) = Inr out"
    and "1 \<le> n"
  shows "int (length out) \<le> n"
proof -
  from assms(1) obtain stream where
    "fst (collect_pages (PyInt n) [] stream) = Inr out"
    by (auto simp: crawl_action_def Let_def split: sum.splits)
  then have "collect_pages (PyInt n) [] stream
               = (Inr out, snd (collect_pages (PyInt n) [] stream))"
    by (cases "collect_pages (PyInt n) [] stream") simp
  from collect_pages_ceiling[OF this] assms(2) show ?thesis by simp
qed

text \<open>
  With \<^verbatim>\<open>max_pages = 3\<close> and five successful pages, three entries are returned and the
  fourth and fifth page stay in the stream.  A failed page is skipped and not counted.
\<close>

lemma collect_pages_three_of_five:
  "collect_pages (PyInt 3) []
     (map (\<lambda>u. Inr (page u [])) [''/1'', ''/2'', ''/3'', ''/4'', ''/5'']) =
   (Inr (map (\<lambda>u. PyDict [(''url'', PyStr u), (''markdown'', PyStr ''# Raw'')])
           [''/1'', ''/2'', ''/3'']),
    map (\<lambda>u. Inr (page u [])) [''/4'', ''/5''])"
  by (simp add: page_def len_ge_def)

lemma collect_pages_skips_failed:
  "\<not> res_success result \<Longrightarrow>
   collect_pages max_pages pages (Inr result # rest) = collect_pages max_pages pages rest"
  by simp

text \<open>
  Claim C3 says that the returned list never holds more than \<^verbatim>\<open>max_pages\<close> entries.
  The test \<^verbatim>\<open>len(pages) >= max_pages\<close> comes after the append, so with
  \<^verbatim>\<open>max_pages = 0\<close> and a stream of two successful pages the first page is appended
  and returned: one entry, above the ceiling of zero.  The second page is not pulled.
\<close>

theorem crawl_zero_ceiling:
  "fst (crawl_action (site_env [Inr (page ''/1'' []), Inr (page ''/2'' [])])
          example_url (PyInt 0) (PyInt 2) (PyStr ''bfs'') PyNone) =
     Inr [PyDict [(''url'', PyStr ''/1''), (''markdown'', PyStr ''# Raw'')]]
   \<and> collect_pages (PyInt 0) [] [Inr (page ''/1'' []), Inr (page ''/2'' [])] =
       (Inr [PyDict [(''url'', PyStr ''/1''), (''markdown'', PyStr ''# Raw'')]],
        [Inr (page ''/2'' [])])"
  by (simp add: crawl_action_def filter_chain_for_def site_env_def quiet_env_def page_def
      len_ge_def)

text \<open>
  Claim C4, as the code has it.  On the markdown path (any \<^verbatim>\<open>format\<close> other than
  \<^verbatim>\<open>"html"\<close> and \<^verbatim>\<open>"raw"\<close>) of a successful fetch, \<open>fetch_action\<close> returns the
  \<^verbatim>\<open>raw_markdown\<close> of the engine's markdown value when it has that attribute, whatever
  its cleaned markdown is, and the \<^verbatim>\<open>str()\<close> of the markdown value otherwise.
\<close>

theorem fetch_markdown_path:
  assumes "py_times env timeout 1000 = Inr page_timeout"
    and "arun env stealth_browser
           (PyObj ''CrawlerRunConfig''
              [(''cache_mode'', cache_bypass), (''wait_for'', wait_for),
               (''js_code'', if truthy js_code then PyList [js_code] else PyNone),
               (''page_timeout'', page_timeout), (''verbose'', PyBool False)])
           url = Inr result"
    and "res_success result"
    and "format \<noteq> PyStr ''html''" and "format \<noteq> PyStr ''raw''"
  shows "(\<forall>raw fit. res_markdown result = MarkdownResult raw fit \<longrightarrow>
            fst (fetch_action env url format wait_for js_code timeout) = Inr (PyStr raw))
       \<and> (\<forall>text. res_markdown result = MarkdownText text \<longrightarrow>
            fst (fetch_action env url format wait_for js_code timeout) = Inr (PyStr text))"
  using assms by (simp add: fetch_action_def)

text \<open>C4 for the formats \<^verbatim>\<open>markdown\<close> and \<^verbatim>\<open>text\<close>.\<close>

theorem fetch_markdown_path_witness:
  "fst (fetch_action (site_env []) example_url (PyStr ''markdown'') PyNone PyNone (PyInt 30))
     = Inr (PyStr ''# Raw'')
   \<and> fst (fetch_action (site_env []) example_url (PyStr ''text'') PyNone PyNone (PyInt 30))
     = Inr (PyStr ''# Raw'')"
proof -
  let ?config = "PyObj ''CrawlerRunConfig''
              [(''cache_mode'', cache_bypass), (''wait_for'', PyNone),
               (''js_code'', if truthy PyNone then PyList [PyNone] else PyNone),
               (''page_timeout'', PyInt 30000), (''verbose'', PyBool False)]"
  have t: "py_times (site_env []) (PyInt 30) 1000 = Inr (PyInt 30000)"
    by (simp add: py_times_def)
  have r: "arun (site_env []) stealth_browser ?config example_url
             = Inr (page ''https://example.com'' [])"
    by (simp add: site_env_def quiet_env_def)
  have s: "res_success (page ''https://example.com'' [])"
    and m: "res_markdown (page ''https://example.com'' []) = MarkdownResult ''# Raw'' ''# Clean''"
    by (simp_all add: page_def)
  have "PyStr ''markdown'' \<noteq> PyStr ''html''" "PyStr ''markdown'' \<noteq> PyStr ''raw''"
    and "PyStr ''text'' \<noteq> PyStr ''html''" "PyStr ''text'' \<noteq> PyStr ''raw''"
    by simp_all
  note a = fetch_markdown_path[OF t r s this(1,2), THEN conjunct1, rule_format, OF m]
    and b = fetch_markdown_path[OF t r s this(3,4), THEN conjunct1, rule_format, OF m]
  from a b show ?thesis by simp
qed

text \<open>
  C4 as it is worded fails: for a result whose raw markdown is \<^verbatim>\<open># Raw\<close> and whose
  cleaned markdown is \<^verbatim>\<open># Clean\<close>, \<open>fetch_action\<close> returns \<^verbatim>\<open># Raw\<close>.  No handler reads
  the cleaned markdown.
\<close>

theorem fetch_markdown_cleaned_counterexample:
  "arun (site_env []) stealth_browser
     (PyObj ''CrawlerRunConfig''
        [(''cache_mode'', cache_bypass), (''wait_for'', PyNone), (''js_code'', PyNone),
         (''page_timeout'', PyInt 30000), (''verbose'', PyBool False)])
     example_url = Inr (page ''https://example.com'' [])
   \<and> res_markdown (page ''https://example.com'' []) = MarkdownResult ''# Raw'' ''# Clean''
   \<and> fst (fetch_action (site_env []) example_url (PyStr ''markdown'') PyNone PyNone (PyInt 30))
       = Inr (PyStr ''# Raw'')
   \<and> fst (fetch_action (site_env []) example_url (PyStr ''markdown'') PyNone PyNone (PyInt 30))
       \<noteq> Inr (PyStr (fit_markdown (res_markdown (page ''https://example.com'' []))))"
  by (simp add: fetch_action_def py_times_def site_env_def quiet_env_def page_def)


section \<open>Properties of the map handler\<close>

lemma first_seen_snoc:
  "first_seen (xs @ [x]) = (if x \<in> set xs then first_seen xs else first_seen xs @ [x])"
  by (simp add: first_seen_def)

lemma set_first_seen: "set (first_seen xs) = set xs"
  by (simp add: first_seen_def)

lemma distinct_first_seen: "distinct (first_seen xs)"
  by (simp add: first_seen_def)

lemma collectable_append: "collectable (xs @ ys) = collectable xs @ collectable ys"
  by (simp add: collectable_def)

text \<open>
  The inner loop keeps the list of entries equal to the first occurrences of everything
  collectable seen so far.
\<close>

lemma add_links_first_seen:
  "add_links (first_seen seen) found = first_seen (seen @ collectable found)"
proof (induction found arbitrary: seen)
  case Nil
  then show ?case by (simp add: collectable_def)
next
  case (Cons lnk found)
  show ?case
  proof (cases "url_truthy (entry_url (link_entry lnk))")
    case False
    with Cons[of seen] show ?thesis by (simp add: collectable_def)
  next
    case True
    have "add_links (first_seen seen) (lnk # found)
            = add_links (first_seen (seen @ [link_entry lnk])) found"
      using True by (simp add: first_seen_snoc set_first_seen Let_def)
    also have "\<dots> = first_seen ((seen @ [link_entry lnk]) @ collectable found)"
      by (rule Cons)
    also have "\<dots> = first_seen (seen @ collectable (lnk # found))"
      using True by (simp add: collectable_def)
    finally show ?thesis .
  qed
qed

lemma collect_links_first_seen:
  "collect_links (first_seen seen) stream = Inr links \<Longrightarrow>
   links = first_seen (seen @ collectable (internal_links stream))"
proof (induction stream arbitrary: seen)
  case Nil
  then show ?case by (simp add: collectable_def)
next
  case (Cons item stream)
  show ?case
  proof (cases item)
    case (Inl e)
    with Cons.prems show ?thesis by simp
  next
    case (Inr result)
    define found where "found =
      (case res_links result of
        Some d \<Rightarrow>
          (if res_success result \<and> d \<noteq> [] then
             (case map_of d ''internal'' of Some found \<Rightarrow> found | None \<Rightarrow> [])
           else [])
      | None \<Rightarrow> [])"
    have step: "collect_links (first_seen seen) (Inr result # stream)
                  = collect_links (add_links (first_seen seen) found) stream"
      by (simp add: found_def split: option.splits)
    have "collect_links (first_seen (seen @ collectable found)) stream = Inr links"
      using Cons.prems Inr step by (simp add: add_links_first_seen)
    from Cons.IH[OF this] have "links = first_seen ((seen @ collectable found) @ collectable (internal_links stream))" .
    moreover have "internal_links (item # stream) = found @ internal_links stream"
      using Inr by (simp add: found_def)
    ultimately show ?thesis by (simp add: collectable_append)
  qed
qed

lemma filter_links_is_filter:
  "filter_links needle links = Inr kept \<Longrightarrow>
   kept = filter (\<lambda>lnk. case entry_url lnk of
                          UrlStr u \<Rightarrow> contains needle (lower u)
                                        \<or> contains needle (lower (entry_title lnk))
                        | UrlAnchor d \<Rightarrow> False) links"
proof (induction links arbitrary: kept)
  case Nil
  then show ?case by simp
next
  case (Cons lnk links)
  then show ?case
    by (cases "entry_url lnk"; cases "filter_links needle links")
       (auto split: if_splits)
qed

lemma slice_upto_is_take:
  "slice_upto xs limit = Inr out \<Longrightarrow> \<exists>n. out = take n xs"
  by (cases limit) (auto simp: slice_upto_def intro: exI[of _ "length xs"])

lemma slice_upto_length:
  "slice_upto xs (PyInt n) = Inr out \<Longrightarrow> 0 \<le> n \<Longrightarrow> int (length out) \<le> n"
  by (auto simp: slice_upto_def)

lemma collect_links_start:
  "collect_links [] stream = Inr links \<Longrightarrow>
   links = first_seen (collectable (internal_links stream))"
  using collect_links_first_seen[of "[]" stream links] by (simp add: first_seen_def)

lemma map_action_shape:
  assumes "fst (map_action env url search limit) = Inr out"
  obtains stream middle where
    "arun_stream env plain_browser (map_config limit) url = Inr stream"
    "(if truthy search \<and> first_seen (collectable (internal_links stream)) \<noteq> [] then
        (case search of
           PyStr s \<Rightarrow> filter_links (lower s) (first_seen (collectable (internal_links stream)))
         | _ \<Rightarrow> Inl (no_attribute search ''lower''))
      else Inr (first_seen (collectable (internal_links stream)))) = Inr middle"
    "slice_upto middle limit = Inr out"
proof -
  from assms obtain stream where
    s: "arun_stream env plain_browser (map_config limit) url = Inr stream"
    by (auto simp: map_action_def split: sum.splits)
  with assms obtain links where l: "collect_links [] stream = Inr links"
    by (auto simp: map_action_def split: sum.splits)
  from assms s l obtain middle where
    m: "(if truthy search \<and> links \<noteq> [] then
        (case search of
           PyStr s \<Rightarrow> filter_links (lower s) links
         | _ \<Rightarrow> Inl (no_attribute search ''lower''))
      else Inr links) = Inr middle" and o: "slice_upto middle limit = Inr out"
    by (auto simp: map_action_def split: sum.splits)
  note links = collect_links_start[OF l]
  from m have m': "(if truthy search \<and> first_seen (collectable (internal_links stream)) \<noteq> [] then
        (case search of
           PyStr s \<Rightarrow> filter_links (lower s) (first_seen (collectable (internal_links stream)))
         | _ \<Rightarrow> Inl (no_attribute search ''lower''))
      else Inr (first_seen (collectable (internal_links stream)))) = Inr middle"
    unfolding links .
  show thesis by (rule that[OF s m' o])
qed

lemma map_action_result:
  assumes "fst (map_action env url search limit) = Inr out"
  obtains stream keep n where
    "arun_stream env plain_browser (map_config limit) url = Inr stream"
    "out = take n (filter keep (first_seen (collectable (internal_links stream))))"
proof -
  from assms obtain stream middle where
    s: "arun_stream env plain_browser (map_config limit) url = Inr stream" and
    m: "(if truthy search \<and> first_seen (collectable (internal_links stream)) \<noteq> [] then
        (case search of
           PyStr s \<Rightarrow> filter_links (lower s) (first_seen (collectable (internal_links stream)))
         | _ \<Rightarrow> Inl (no_attribute search ''lower''))
      else Inr (first_seen (collectable (internal_links stream)))) = Inr middle" and
    o: "slice_upto middle limit = Inr out"
    by (rule map_action_shape)
  define collected where "collected = first_seen (collectable (internal_links stream))"
  have "\<exists>keep. middle = filter keep collected"
  proof (cases "truthy search \<and> collected \<noteq> []")
    case False
    with m have "middle = filter (\<lambda>x. True) collected"
      by (auto simp: collected_def)
    then show ?thesis by blast
  next
    case True
    with m obtain s where "filter_links (lower s) collected = Inr middle"
      by (cases search) (auto simp: collected_def)
    from filter_links_is_filter[OF this] show ?thesis by blast
  qed
  then obtain keep where keep: "middle = filter keep collected" by blast
  from slice_upto_is_take[OF o] obtain n where n: "out = take n middle" by blast
  show thesis
    using that[OF s, of n keep] keep n by (simp add: collected_def)
qed

lemma map_action_distinct:
  assumes "fst (map_action env url search limit) = Inr out"
  shows "distinct out"
proof -
  from assms obtain stream keep n where
    "out = take n (filter keep (first_seen (collectable (internal_links stream))))"
    by (rule map_action_result)
  then show ?thesis by (simp add: distinct_first_seen)
qed

text \<open>
  Claim C5, as the code has it.  Entries are deduplicated by equality of the whole
  normalised entry, \<^verbatim>\<open>url\<close> and \<^verbatim>\<open>title\<close> together: the collected list is the list of
  normalised entries with a truthy \<^verbatim>\<open>url\<close>, in stream order, each kept at its first
  occurrence only.  The output is a prefix of a filtering of that list (the whole list cut
  by \<^verbatim>\<open>limit\<close> when no \<^verbatim>\<open>search\<close> is given), so no entry appears twice in it and its
  order is first-seen order.  Two links with the same URL and different titles are
  different entries.
\<close>

theorem map_dedup_by_entry:
  assumes "fst (map_action env url search limit) = Inr out"
  shows "\<exists>stream collected.
           arun_stream env plain_browser (map_config limit) url = Inr stream
         \<and> collected =
             rev (remdups (rev (filter (\<lambda>entry. url_truthy (entry_url entry))
                                  (map link_entry (internal_links stream)))))
         \<and> (\<exists>keep n. out = take n (filter keep collected))
         \<and> (\<not> truthy search \<longrightarrow> slice_upto collected limit = Inr out)
         \<and> distinct out"
proof -
  from assms obtain stream middle where
    s: "arun_stream env plain_browser (map_config limit) url = Inr stream" and
    m: "(if truthy search \<and> first_seen (collectable (internal_links stream)) \<noteq> [] then
        (case search of
           PyStr s \<Rightarrow> filter_links (lower s) (first_seen (collectable (internal_links stream)))
         | _ \<Rightarrow> Inl (no_attribute search ''lower''))
      else Inr (first_seen (collectable (internal_links stream)))) = Inr middle" and
    o: "slice_upto middle limit = Inr out"
    by (rule map_action_shape)
  define collected where "collected = first_seen (collectable (internal_links stream))"
  have "\<exists>keep. middle = filter keep collected"
  proof (cases "truthy search \<and> collected \<noteq> []")
    case False
    with m have "middle = filter (\<lambda>x. True) collected"
      by (auto simp: collected_def)
    then show ?thesis by blast
  next
    case True
    with m obtain s where "filter_links (lower s) collected = Inr middle"
      by (cases search) (auto simp: collected_def)
    from filter_links_is_filter[OF this] show ?thesis by blast
  qed
  then obtain keep where keep: "middle = filter keep collected" by blast
  from slice_upto_is_take[OF o] obtain n where n: "out = take n middle" by blast
  have d: "distinct out"
    using keep n by (simp add: collected_def distinct_first_seen)
  have plain: "slice_upto collected limit = Inr out" if "\<not> truthy search"
    using that m o by (simp add: collected_def)
  have "collected =
             rev (remdups (rev (filter (\<lambda>entry. url_truthy (entry_url entry))
                                  (map link_entry (internal_links stream)))))"
    by (simp add: collected_def first_seen_def collectable_def)
  with s keep n d plain show ?thesis by blast
qed


text \<open>C5 on a page with a repeated link, an empty link and a link repeated under another
  title.\<close>

theorem map_dedup_by_entry_witness:
  "fst (map_action
          (site_env [Inr (page ''https://example.com''
                          [anchor ''/a'' ''A'', Bare ''/b'', anchor ''/a'' ''A'', Bare [],
                           anchor ''/a'' ''Again''])])
          example_url PyNone PyNone)
     = Inr [MapEntry (UrlStr ''/a'') ''A'', MapEntry (UrlStr ''/b'') [],
            MapEntry (UrlStr ''/a'') ''Again'']
   \<and> distinct [MapEntry (UrlStr ''/a'') ''A'', MapEntry (UrlStr ''/b'') [],
                MapEntry (UrlStr ''/a'') ''Again'']"
proof -
  have run: "fst (map_action
          (site_env [Inr (page ''https://example.com''
                          [anchor ''/a'' ''A'', Bare ''/b'', anchor ''/a'' ''A'', Bare [],
                           anchor ''/a'' ''Again''])])
          example_url PyNone PyNone)
     = Inr [MapEntry (UrlStr ''/a'') ''A'', MapEntry (UrlStr ''/b'') [],
            MapEntry (UrlStr ''/a'') ''Again'']"
    by (simp add: map_action_def site_env_def quiet_env_def page_def anchor_def
        link_entry_def lookup_of_alist slice_upto_def)
  from map_dedup_by_entry[OF run] run show ?thesis by blast
qed

text \<open>
  C5 as it is worded fails: two links with the URL \<^verbatim>\<open>/a\<close> and the titles \<^verbatim>\<open>A\<close> and
  \<^verbatim>\<open>B\<close> are both in the output.
\<close>

theorem map_dedup_by_url_counterexample:
  "fst (map_action
          (site_env [Inr (page ''https://example.com'' [anchor ''/a'' ''A'', anchor ''/a'' ''B''])])
          example_url PyNone (PyInt 100))
     = Inr [MapEntry (UrlStr ''/a'') ''A'', MapEntry (UrlStr ''/a'') ''B'']
   \<and> link_entry (anchor ''/a'' ''A'') = MapEntry (UrlStr ''/a'') ''A''
   \<and> link_entry (anchor ''/a'' ''B'') = MapEntry (UrlStr ''/a'') ''B''
   \<and> entry_url (link_entry (anchor ''/a'' ''A'')) = entry_url (link_entry (anchor ''/a'' ''B''))"
  by (simp add: map_action_def site_env_def quiet_env_def page_def anchor_def
      link_entry_def lookup_of_alist slice_upto_def)

text \<open>
  Claim C6.  With \<^verbatim>\<open>limit = 2\<close>, no \<^verbatim>\<open>search\<close>, and an engine that yields one page whose
  internal links are \<^verbatim>\<open>/a A\<close>, \<^verbatim>\<open>/a A\<close>, \<^verbatim>\<open>/b B\<close>, \<^verbatim>\<open>/c C\<close>, \<open>map_action\<close> returns
  exactly the entries \<^verbatim>\<open>/a A\<close> and \<^verbatim>\<open>/b B\<close>.  For every engine and every limit
  \<open>n \<ge> 0\<close>, the returned list has at most \<open>n\<close> entries and none of them twice.
\<close>

theorem map_scenario:
  "(arun_stream env plain_browser (map_config (PyInt 2)) url = Inr [Inr result]
    \<and> res_success result \<and> res_links result = Some d
    \<and> map_of d ''internal''
        = Some [anchor ''/a'' ''A'', anchor ''/a'' ''A'', anchor ''/b'' ''B'', anchor ''/c'' ''C'']
    \<and> \<not> truthy search
    \<longrightarrow> fst (map_action env url search (PyInt 2))
          = Inr [MapEntry (UrlStr ''/a'') ''A'', MapEntry (UrlStr ''/b'') ''B''])
   \<and> (fst (map_action env url search (PyInt n)) = Inr out \<and> 0 \<le> n
      \<longrightarrow> int (length out) \<le> n \<and> distinct out)"
proof (intro conjI impI)
  assume h: "arun_stream env plain_browser (map_config (PyInt 2)) url = Inr [Inr result]
    \<and> res_success result \<and> res_links result = Some d
    \<and> map_of d ''internal''
        = Some [anchor ''/a'' ''A'', anchor ''/a'' ''A'', anchor ''/b'' ''B'', anchor ''/c'' ''C'']
    \<and> \<not> truthy search"
  then have "d \<noteq> []" by auto
  with h show "fst (map_action env url search (PyInt 2))
          = Inr [MapEntry (UrlStr ''/a'') ''A'', MapEntry (UrlStr ''/b'') ''B'']"
    by (simp add: map_action_def anchor_def link_entry_def lookup_of_alist slice_upto_def)
next
  assume h: "fst (map_action env url search (PyInt n)) = Inr out \<and> 0 \<le> n"
  then obtain stream middle where "slice_upto middle (PyInt n) = Inr out"
    by (blast elim: map_action_shape)
  with h show "int (length out) \<le> n"
    by (simp add: slice_upto_length)
next
  assume "fst (map_action env url search (PyInt n)) = Inr out \<and> 0 \<le> n"
  then have "fst (map_action env url search (PyInt n)) = Inr out" by simp
  then show "distinct out" by (rule map_action_distinct)
qed

text \<open>C6 with the engine of the scenario.\<close>

theorem map_scenario_witness:
  "fst (map_action
          (site_env [Inr (page ''https://example.com''
             [anchor ''/a'' ''A'', anchor ''/a'' ''A'', anchor ''/b'' ''B'', anchor ''/c'' ''C''])])
          example_url PyNone (PyInt 2))
     = Inr [MapEntry (UrlStr ''/a'') ''A'', MapEntry (UrlStr ''/b'') ''B'']
   \<and> int (length [MapEntry (UrlStr ''/a'') ''A'', MapEntry (UrlStr ''/b'') ''B'']) \<le> 2"
proof -
  let ?found = "[anchor ''/a'' ''A'', anchor ''/a'' ''A'', anchor ''/b'' ''B'', anchor ''/c'' ''C'']"
  let ?env = "site_env [Inr (page ''https://example.com'' ?found)]"
  have "arun_stream ?env plain_browser (map_config (PyInt 2)) example_url
          = Inr [Inr (page ''https://example.com'' ?found)]
        \<and> res_success (page ''https://example.com'' ?found)
        \<and> res_links (page ''https://example.com'' ?found)
            = Some [(''internal'', ?found), (''external'', [])]
        \<and> map_of [(''internal'', ?found), (''external'', [])] ''internal'' = Some ?found
        \<and> \<not> truthy PyNone"
    by (simp add: site_env_def quiet_env_def page_def)
  with map_scenario[of ?env example_url "page ''https://example.com'' ?found"
      "[(''internal'', ?found), (''external'', [])]" PyNone 2
      "[MapEntry (UrlStr ''/a'') ''A'', MapEntry (UrlStr ''/b'') ''B'']"]
  show ?thesis by simp
qed


text \<open>The scenario through the dispatcher: the request carries no \<^verbatim>\<open>search\<close>, so the
  handler gets \<^verbatim>\<open>None\<close> for it.\<close>

lemma map_scenario_through_main:
  assumes "json_loads env request_json =
             Inr (PyDict [(''action'', PyStr ''map''),
                          (''params'', PyDict [(''url'', example_url), (''limit'', PyInt 2)])])"
    and "arun_stream env plain_browser (map_config (PyInt 2)) example_url = Inr [Inr result]"
    and "res_success result" and "res_links result = Some d"
    and "map_of d ''internal''
           = Some [anchor ''/a'' ''A'', anchor ''/a'' ''A'', anchor ''/b'' ''B'', anchor ''/c'' ''C'']"
  shows "main env request_json =
           ([[(''success'', Json (PyBool True)),
              (''data'', Entries [MapEntry (UrlStr ''/a'') ''A'', MapEntry (UrlStr ''/b'') ''B''])]],
            [EngineRun plain_browser (map_config (PyInt 2)) example_url])"
proof -
  from assms(5) have "d \<noteq> []" by auto
  with assms(2-5) have "map_action env example_url PyNone (PyInt 2) =
      (Inr [MapEntry (UrlStr ''/a'') ''A'', MapEntry (UrlStr ''/b'') ''B''],
       [EngineRun plain_browser (map_config (PyInt 2)) example_url])"
    by (simp add: map_action_def anchor_def link_entry_def lookup_of_alist slice_upto_def)
  with assms(1) show ?thesis
    by (simp add: main_def main_try_def with_arg_def respond_data_def respond_def
        py_get_def py_item_def dict_get_def example_url_def)
qed


section \<open>Properties of the dispatcher and the envelope\<close>

lemma with_arg_Inr:
  "with_arg arg k = (Inr printed, evs) \<Longrightarrow> \<exists>v. arg = Inr v \<and> k v = (Inr printed, evs)"
  by (cases arg) (auto simp: with_arg_def)

lemma respond_data_Inr:
  "respond_data wrap outcome = (Inr printed, evs) \<Longrightarrow> \<exists>data. printed = respond True data None"
  by (auto simp: respond_data_def split: prod.splits sum.splits)

text \<open>
  Whatever the \<^verbatim>\<open>try\<close> block prints is \<^verbatim>\<open>respond(True, data)\<close> or
  \<^verbatim>\<open>respond(False, error=..)\<close>.
\<close>

lemma main_try_printed:
  assumes "main_try env request_json = (Inr printed, evs)"
  shows "(\<exists>data. printed = respond True data None)
         \<or> (\<exists>msg. printed = respond False (Json PyNone) (Some msg))"
  using assms unfolding main_try_def
  by (auto dest!: with_arg_Inr respond_data_Inr split: if_splits)

lemma respond_success_no_error: "\<not> has_field ''error'' (respond True data None)"
  by (simp add: respond_def has_field_def)

lemma respond_failure_no_data: "\<not> has_field ''data'' (respond False (Json PyNone) error)"
  by (simp add: respond_def has_field_def split: option.splits)

lemma main_prints:
  "(\<exists>data. fst (main env request_json) = [respond True data None])
   \<or> (\<exists>msg. fst (main env request_json) = [respond False (Json PyNone) (Some msg)])"
proof (cases "main_try env request_json")
  case (Pair outcome evs)
  show ?thesis
  proof (cases outcome)
    case (Inl e)
    with Pair show ?thesis
      by (cases e; simp add: main_def del: str_exn.simps; blast)
  next
    case (Inr printed)
    with Pair main_try_printed[of env request_json printed evs]
    show ?thesis by (auto simp: main_def)
  qed
qed

text \<open>
  Claim C9.  For every environment and every input, no envelope that \<open>main\<close> prints
  has both a \<^verbatim>\<open>data\<close> and an \<^verbatim>\<open>error\<close> field; and \<open>main\<close> prints exactly one envelope.
\<close>

theorem envelope_never_data_and_error:
  "(\<forall>envelope \<in> set (fst (main env request_json)).
      \<not> (has_field ''data'' envelope \<and> has_field ''error'' envelope))
   \<and> length (fst (main env request_json)) = 1"
  using main_prints[of env request_json]
  by (auto simp: respond_success_no_error respond_failure_no_data)

text \<open>C9 on an input that does not decode.\<close>

lemma dec_digits: "dec 0 = ''0''" "dec (Suc 0) = ''1''"
  by code_simp+

theorem envelope_never_data_and_error_witness:
  "fst (main quiet_env ''not json'') =
     [[(''success'', Json (PyBool False)),
       (''error'', Json (PyStr ''Invalid JSON request: Expecting value: line 1 column 1 (char 0)''))]]
   \<and> \<not> (has_field ''data''
           [(''success'', Json (PyBool False)),
            (''error'', Json (PyStr ''Invalid JSON request: Expecting value: line 1 column 1 (char 0)''))]
         \<and> has_field ''error''
           [(''success'', Json (PyBool False)),
            (''error'', Json (PyStr ''Invalid JSON request: Expecting value: line 1 column 1 (char 0)''))])"
proof -
  have run: "fst (main quiet_env ''not json'') =
     [[(''success'', Json (PyBool False)),
       (''error'', Json (PyStr ''Invalid JSON request: Expecting value: line 1 column 1 (char 0)''))]]"
    by (simp add: main_def main_try_def with_arg_def quiet_env_def respond_def dec_digits)
  from envelope_never_data_and_error[of quiet_env "''not json''"] run
  show ?thesis by simp
qed

text \<open>The decimal numeral of a number is made of digits and reads back as the number.\<close>

lemma dec_digits_only: "list_all is_digit (dec n)"
proof (induction n rule: dec.induct)
  case (1 n)
  have "is_digit (char_of (48 + d))" if "d < 10" for d :: nat
    using that by (simp add: is_digit_def)
  with 1 show ?case
    by (cases "n < 10") (simp_all add: dec.simps[of n])
qed

lemma decimal_value_snoc:
  "decimal_value (s @ [c]) = 10 * decimal_value s + digit_value c"
  by (simp add: decimal_value_def)

lemma dec_reads_back: "decimal_value (dec n) = n"
proof (induction n rule: dec.induct)
  case (1 n)
  show ?case
  proof (cases "n < 10")
    case True
    then show ?thesis
      by (simp add: dec.simps[of n] decimal_value_def digit_value_def)
  next
    case False
    with 1 have "decimal_value (dec (n div 10)) = n div 10" by simp
    with False show ?thesis
      by (simp add: dec.simps[of n] decimal_value_snoc digit_value_def)
  qed
qed

text \<open>What \<^verbatim>\<open>f"{action}"\<close> prints for some actions.\<close>

lemma py_str_examples:
  "py_str quiet_env (PyStr ''ping'') = ''ping''"
  "py_str quiet_env PyNone = ''None''"
  "py_str quiet_env (PyInt (- 42)) = ''-42''"
  "py_str quiet_env (PyList [PyStr ''a'', PyInt 1, PyBool True, PyNone])
     = ''['' @ quoted ''a'' @ '', 1, True, None]''"
  "py_str quiet_env (PyDict [(''k'', PyList [])]) = ''{'' @ quoted ''k'' @ '': []}''"
  by (code_simp)+

text \<open>
  Claim C7.  When the input decodes to an object whose \<^verbatim>\<open>action\<close> (\<^verbatim>\<open>None\<close> when the
  key is missing) is none of the seven action names, \<open>main\<close> prints the single envelope
  \<^verbatim>\<open>{"success": false, "error": "Unknown action: <action>"}\<close> and records no event: no
  collaborator is called, and of the environment only \<^verbatim>\<open>json.loads\<close> and the printing
  of a float or of a foreign object are read.  \<^verbatim>\<open><action>\<close> is the action as \<^verbatim>\<open>str()\<close> prints it: a
  string as it is, \<^verbatim>\<open>None\<close>, \<^verbatim>\<open>True\<close>, \<^verbatim>\<open>False\<close>, an integer in decimal, a float as the
  interpreter prints it, a list and a dict as \<^verbatim>\<open>repr\<close> prints them.
\<close>

theorem unknown_action:
  assumes "json_loads env request_json = Inr (PyDict request)"
    and "dict_get request ''action'' PyNone = action"
    and "action \<notin> PyStr ` {''debug'', ''fetch'', ''search'', ''extract'', ''screenshot'',
                              ''crawl'', ''map''}"
  shows "main env request_json =
           ([[(''success'', Json (PyBool False)),
              (''error'', Json (PyStr (''Unknown action: '' @ py_str env action)))]], [])
         \<and> (\<forall>name. action = PyStr name \<longrightarrow> py_str env action = name)
         \<and> (action = PyNone \<longrightarrow> py_str env action = ''None'')
         \<and> (action = PyBool True \<longrightarrow> py_str env action = ''True'')
         \<and> (action = PyBool False \<longrightarrow> py_str env action = ''False'')
         \<and> (\<forall>i. action = PyInt i \<longrightarrow>
               py_str env action = (if i < 0 then ''-'' @ dec (nat (- i)) else dec (nat i)))
         \<and> (\<forall>f. action = PyFloat f \<longrightarrow> py_str env action = float_repr env f)
         \<and> (\<forall>xs. action = PyList xs \<longrightarrow>
               py_str env action = ''['' @ join '', '' (map (py_repr env) xs) @ '']'')
         \<and> (\<forall>d. action = PyDict d \<longrightarrow>
               py_str env action =
                 ''{'' @ join '', '' (map (\<lambda>(k, v). repr_str k @ '': '' @ py_repr env v) d)
                 @ ''}'')"
proof -
  have "main env request_json =
           ([[(''success'', Json (PyBool False)),
              (''error'', Json (PyStr (''Unknown action: '' @ py_str env action)))]], [])"
    using assms
    by (auto simp: main_def main_try_def with_arg_def py_get_def respond_def)
  then show ?thesis
    by (simp add: py_str_def dec_int_def)
qed

text \<open>C7 for the actions \<^verbatim>\<open>ping\<close> and \<^verbatim>\<open>-42\<close>.\<close>

theorem unknown_action_witness:
  "main ping_env ''{\"action\": \"ping\"}'' =
     ([[(''success'', Json (PyBool False)),
        (''error'', Json (PyStr ''Unknown action: ping''))]], [])
   \<and> main number_env ''{\"action\": -42}'' =
     ([[(''success'', Json (PyBool False)),
        (''error'', Json (PyStr ''Unknown action: -42''))]], [])"
proof -
  have "json_loads ping_env ''{\"action\": \"ping\"}'' = Inr (PyDict [(''action'', PyStr ''ping'')])"
    and "dict_get [(''action'', PyStr ''ping'')] ''action'' PyNone = PyStr ''ping''"
    and "PyStr ''ping'' \<notin> PyStr ` {''debug'', ''fetch'', ''search'', ''extract'', ''screenshot'',
                              ''crawl'', ''map''}"
    by (auto simp: ping_env_def quiet_env_def dict_get_def)
  note ping = unknown_action[OF this]
  have "json_loads number_env ''{\"action\": -42}'' = Inr (PyDict [(''action'', PyInt (- 42))])"
    and "dict_get [(''action'', PyInt (- 42))] ''action'' PyNone = PyInt (- 42)"
    and "PyInt (- 42) \<notin> PyStr ` {''debug'', ''fetch'', ''search'', ''extract'', ''screenshot'',
                              ''crawl'', ''map''}"
    by (auto simp: number_env_def quiet_env_def dict_get_def)
  note number = unknown_action[OF this]
  have digits: "dec 42 = ''42''" by code_simp
  from ping[THEN conjunct1] ping[THEN conjunct2, THEN conjunct1]
       number[THEN conjunct1]
       number[THEN conjunct2, THEN conjunct2, THEN conjunct2, THEN conjunct2, THEN conjunct2,
              THEN conjunct1]
  show ?thesis by (simp add: digits)
qed

lemma str_exn_decode_error: "str_exn (JSONDecodeError msg lineno colno pos) \<noteq> []"
  by simp

text \<open>
  Claim C10.  When an exception whose \<^verbatim>\<open>str()\<close> is empty leaves the \<^verbatim>\<open>try\<close> block of
  \<open>main\<close>, the printed envelope is \<^verbatim>\<open>{"success": false}\<close>, without an \<^verbatim>\<open>error\<close> field.
\<close>

theorem empty_message_no_error_field:
  assumes "main_try env request_json = (Inl e, evs)" and "str_exn e = []"
  shows "main env request_json = ([[(''success'', Json (PyBool False))]], evs)"
  using assms by (cases e) (simp_all add: main_def respond_def)

text \<open>C10 for a fetch whose engine raises an exception without a message.\<close>

theorem empty_message_no_error_field_witness:
  "main silent_failure_env ''{\"action\": \"fetch\", \"params\": {\"url\": \"https://example.com\"}}''
     = ([[(''success'', Json (PyBool False))]],
        [EngineRun stealth_browser
           (PyObj ''CrawlerRunConfig''
              [(''cache_mode'', cache_bypass), (''wait_for'', PyNone), (''js_code'', PyNone),
               (''page_timeout'', PyInt 30000), (''verbose'', PyBool False)])
           example_url])"
proof -
  have "main_try silent_failure_env
          ''{\"action\": \"fetch\", \"params\": {\"url\": \"https://example.com\"}}''
        = (Inl (Exception []),
           [EngineRun stealth_browser
           (PyObj ''CrawlerRunConfig''
              [(''cache_mode'', cache_bypass), (''wait_for'', PyNone), (''js_code'', PyNone),
               (''page_timeout'', PyInt 30000), (''verbose'', PyBool False)])
           example_url])"
    by (simp add: main_try_def with_arg_def respond_data_def silent_failure_env_def quiet_env_def
        py_get_def py_item_def dict_get_def fetch_action_def py_times_def example_url_def)
  from empty_message_no_error_field[OF this] show ?thesis by simp
qed


end
